theory Spec2Isabelle
  imports Complex_Main "HOL-Library.Multiset"
begin

section \<open>Python values used by the Aladin metadata provider\<close>

text \<open>
  A Python \<open>str\<close> is a sequence of Unicode code points, so it is modelled as a list of
  code point numbers; \<open>ascii\<close> writes an ASCII literal. A \<open>bytes\<close> object is a list of
  numbers below 256.
\<close>

type_synonym pystr = "nat list"
type_synonym pybytes = "nat list"

definition ascii :: "string \<Rightarrow> pystr" where
  "ascii s = map of_char s"

datatype error = IndexError | AttributeError | TypeError | UnicodeEncodeError

text \<open>\<open>xs[i]\<close>: a negative index counts from the end, an index out of range raises.\<close>

definition subscript :: "'a list \<Rightarrow> int \<Rightarrow> error + 'a" where
  "subscript xs i =
     (if 0 \<le> i \<and> i < int (length xs) then Inr (xs ! nat i)
      else if i < 0 \<and> - int (length xs) \<le> i then Inr (xs ! nat (int (length xs) + i))
      else Inl IndexError)"

text \<open>
  \<open>str.isspace\<close> for one code point: the characters that \<open>str.strip()\<close> without an
  argument removes from both ends.
\<close>

definition py_isspace :: "nat \<Rightarrow> bool" where
  "py_isspace c =
     ((9 \<le> c \<and> c \<le> 13) \<or> (28 \<le> c \<and> c \<le> 32) \<or> c = 133 \<or> c = 160 \<or> c = 5760
      \<or> (8192 \<le> c \<and> c \<le> 8202) \<or> c = 8232 \<or> c = 8233 \<or> c = 8239 \<or> c = 8287
      \<or> c = 12288)"

definition lstrip :: "pystr \<Rightarrow> pystr" where
  "lstrip s = dropWhile py_isspace s"

definition rstrip :: "pystr \<Rightarrow> pystr" where
  "rstrip s = rev (dropWhile py_isspace (rev s))"

definition strip :: "pystr \<Rightarrow> pystr" where
  "strip s = rstrip (lstrip s)"

text \<open>\<open>needle in haystack\<close> on strings: the needle occurs as a contiguous run.\<close>

fun starts_with :: "pystr \<Rightarrow> pystr \<Rightarrow> bool" where
  "starts_with [] s = True"
| "starts_with (c # cs) [] = False"
| "starts_with (c # cs) (d # ds) = (c = d \<and> starts_with cs ds)"

fun contains :: "pystr \<Rightarrow> pystr \<Rightarrow> bool" where
  "contains needle [] = (needle = [])"
| "contains needle (d # ds) = (starts_with needle (d # ds) \<or> contains needle ds)"

text \<open>\<open>sep.join(parts)\<close>.\<close>

fun join :: "pystr \<Rightarrow> pystr list \<Rightarrow> pystr" where
  "join sep [] = []"
| "join sep [p] = p"
| "join sep (p # q # ps) = p @ sep @ join sep (q # ps)"

text \<open>\<open>a or b\<close> where \<open>a\<close> is a string or \<open>None\<close>: \<open>None\<close> and the empty string are falsy.\<close>

definition str_or :: "pystr option \<Rightarrow> pystr \<Rightarrow> pystr" where
  "str_or a b = (case a of None \<Rightarrow> b | Some s \<Rightarrow> if s = [] then b else s)"

subsection \<open>\<open>str.encode("utf-8")\<close> and \<open>urllib.parse.quote\<close>\<close>

text \<open>
  The strict UTF-8 encoder refuses the surrogate code points U+D800 to U+DFFF with
  \<open>UnicodeEncodeError\<close>. Python strings hold no code point above U+10FFFF.
\<close>

definition surrogate :: "nat \<Rightarrow> bool" where
  "surrogate c = (55296 \<le> c \<and> c \<le> 57343)"

definition encode_code_point :: "nat \<Rightarrow> error + pybytes" where
  "encode_code_point c =
     (if c < 128 then Inr [c]
      else if c < 2048 then Inr [192 + c div 64, 128 + c mod 64]
      else if surrogate c then Inl UnicodeEncodeError
      else if c < 65536 then Inr [224 + c div 4096, 128 + c div 64 mod 64, 128 + c mod 64]
      else Inr [240 + c div 262144 mod 8, 128 + c div 4096 mod 64, 128 + c div 64 mod 64,
                128 + c mod 64])"

fun encode_utf8 :: "pystr \<Rightarrow> error + pybytes" where
  "encode_utf8 [] = Inr []"
| "encode_utf8 (c # cs) =
     (case encode_code_point c of
        Inl e \<Rightarrow> Inl e
      | Inr bs \<Rightarrow> (case encode_utf8 cs of Inl e \<Rightarrow> Inl e | Inr rest \<Rightarrow> Inr (bs @ rest)))"

text \<open>
  \<open>quote\<close> with its default \<open>safe='/'\<close>: letters, digits, \<open>_.-~\<close> and \<open>/\<close> are kept,
  every other byte becomes \<open>%XX\<close> with upper-case hexadecimal digits.
\<close>

definition always_safe :: "nat \<Rightarrow> bool" where
  "always_safe b =
     ((65 \<le> b \<and> b \<le> 90) \<or> (97 \<le> b \<and> b \<le> 122) \<or> (48 \<le> b \<and> b \<le> 57)
      \<or> b = 95 \<or> b = 46 \<or> b = 45 \<or> b = 126)"

definition hex_digit :: "nat \<Rightarrow> nat" where
  "hex_digit d = (if d < 10 then 48 + d else 55 + d)"

definition quote_byte :: "nat \<Rightarrow> pystr" where
  "quote_byte b =
     (if always_safe b \<or> b = 47 then [b] else [37, hex_digit (b div 16), hex_digit (b mod 16)])"

definition quote :: "pybytes \<Rightarrow> pystr" where
  "quote bs = concat (map quote_byte bs)"

section \<open>The parsed page and the network\<close>

text \<open>
  An lxml element, as far as the provider reads it: its attribute dictionary, its own
  text and the text fragments \<open>itertext()\<close> yields.
\<close>

record element =
  attrib :: "pystr \<rightharpoonup> pystr"
  text_of :: "pystr option"
  itertext :: "pystr list"

text \<open>
  The XPath constants of the class:
  \<^item> \<open>ITEM_XPATH\<close> is \<^verbatim>\<open>//div[@class='ss_book_box']\<close>,
  \<^item> \<open>AUTHORS_AND_PUBLISHER_XPATH\<close> is \<^verbatim>\<open>//li[@class='Ere_sub2_title']\<close>,
  \<^item> \<open>TITLE_XPATH\<close> is \<^verbatim>\<open>//meta[@property='og:title']\<close>,
  \<^item> \<open>COVER_XPATH\<close> is \<^verbatim>\<open>//meta[@property='og:image']\<close>,
  \<^item> \<open>DESCRIPTION_XPATH\<close> is \<^verbatim>\<open>//meta[@property='og:description']\<close>,
  \<^item> \<open>ISBN_XPATH\<close> is \<^verbatim>\<open>//meta[@property='books:isbn']\<close>,
  \<^item> \<open>PUBLISHED_DATE_XPATH\<close> is \<^verbatim>\<open>//meta[@itemprop='datePublished']\<close>,
  \<^item> \<open>RAITING10_XPATH\<close> is \<^verbatim>\<open>//a[@class='Ere_sub_pink Ere_fs16 Ere_str']\<close>.

  A parsed document is what \<open>html.xpath\<close> answers for each of them: the matching
  elements in document order, the empty list when none matches.
\<close>

datatype selector =
    ITEM_XPATH
  | AUTHORS_AND_PUBLISHER_XPATH
  | TITLE_XPATH
  | COVER_XPATH
  | DESCRIPTION_XPATH
  | ISBN_XPATH
  | PUBLISHED_DATE_XPATH
  | RAITING10_XPATH

type_synonym html = "selector \<Rightarrow> element list"

definition xpath :: "html \<Rightarrow> selector \<Rightarrow> element list" where
  "xpath doc sel = doc sel"

text \<open>\<open>html.xpath(sel)[0].get("content")\<close>: IndexError when nothing matches, \<open>None\<close>
  when the first match has no such attribute.\<close>

definition first_content :: "html \<Rightarrow> selector \<Rightarrow> error + pystr option" where
  "first_content doc sel =
     (case subscript (xpath doc sel) 0 of
        Inl e \<Rightarrow> Inl e
      | Inr el \<Rightarrow> Inr (attrib el (ascii ''content'')))"

text \<open>
  What the call observably does to the outside: the lines it printed and the URLs it
  requested. Item pages are requested from worker threads, so requests are counted
  without an order.
\<close>

record world =
  printed :: "pystr list"
  requested :: "pystr multiset"

text \<open>
  The network is a parameter: for each URL, the tree that \<open>requests.get\<close>,
  \<open>raise_for_status\<close>, \<open>decode("utf8")\<close> and \<open>etree.HTML\<close> produce, or \<open>None\<close> when any
  of them raises (the bare \<open>except\<close> of \<open>_http_get\<close>).
\<close>

type_synonym network = "pystr \<Rightarrow> html option"

definition http_get :: "network \<Rightarrow> pystr \<Rightarrow> world \<Rightarrow> html option \<times> world" where
  "http_get net url w = (net url, w\<lparr>requested := add_mset url (requested w)\<rparr>)"

section \<open>The record schema\<close>

text \<open>
  Modelled from the spec: the dataclasses \<open>MetaSourceInfo\<close> and \<open>MetaRecord\<close> of
  \<open>cps.services.Metadata\<close> are not part of the sources at hand; the fields are those the
  provider fills. A field fed by \<open>get("content")\<close> can be \<open>None\<close>.
\<close>

record MetaSourceInfo =
  source_id :: pystr
  source_description :: pystr
  source_link :: pystr

record MetaRecord =
  ident :: pystr
  title :: "pystr option"
  authors :: "pystr list"
  url :: pystr
  source :: MetaSourceInfo
  cover :: pystr
  description :: "pystr option"
  identifiers :: "pystr \<rightharpoonup> pystr option"
  publisher :: pystr
  publishedDate :: "pystr option"
  rating :: int

section \<open>Class constants\<close>

definition MAX_ITEMS :: nat where
  "MAX_ITEMS = 10"

definition provider_id :: pystr where
  "provider_id = ascii ''aladin''"

definition DESCRIPTION :: pystr where
  "DESCRIPTION = ascii ''aladin.co.kr''"

definition META_URL :: pystr where
  "META_URL = ascii ''https://www.aladin.co.kr/''"

definition BOOK_URL :: pystr where
  "BOOK_URL = ascii ''https://www.aladin.co.kr/shop/wproduct.aspx''"

definition SEARCH_URL :: pystr where
  "SEARCH_URL = ascii ''https://www.aladin.co.kr/search/wsearchresult.aspx?SearchTarget=All&ViewRowCount=10&SearchWord=''"

text \<open>The marker \<open>(\<close>, U+C9C0, U+C740, U+C774, \<open>)\<close>: "(author)" in Korean.\<close>

definition AUTHOR_END_MARK :: pystr where
  "AUTHOR_END_MARK = [40, 51648, 51008, 51060, 41]"

section \<open>Query normalisation\<close>

text \<open>
  \<open>get_title_tokens\<close> is inherited from the \<open>Metadata\<close> base class, which is not part of
  the sources at hand; it is a parameter of the model: a function from the query and the
  \<open>strip_joiners\<close> flag to the list of tokens.
\<close>

type_synonym tokenizer = "pystr \<Rightarrow> bool \<Rightarrow> pystr list"

text \<open>\<open>[quote(t.encode("utf-8")) for t in title_tokens]\<close>: the first token that cannot
  be encoded raises.\<close>

fun quote_tokens :: "pystr list \<Rightarrow> error + pystr list" where
  "quote_tokens [] = Inr []"
| "quote_tokens (t # ts) =
     (case encode_utf8 t of
        Inl e \<Rightarrow> Inl e
      | Inr bs \<Rightarrow> (case quote_tokens ts of Inl e \<Rightarrow> Inl e | Inr qs \<Rightarrow> Inr (quote bs # qs)))"

definition parse_query :: "tokenizer \<Rightarrow> pystr \<Rightarrow> error + pystr" where
  "parse_query get_title_tokens query =
     (let title_tokens = get_title_tokens query False
      in if title_tokens \<noteq> [] then
           (case quote_tokens title_tokens of
              Inl e \<Rightarrow> Inl e
            | Inr tokens \<Rightarrow> Inr (join (ascii ''+'') tokens))
         else Inr query)"

section \<open>Search-result identifiers\<close>

definition search_book_id :: "network \<Rightarrow> pystr \<Rightarrow> world \<Rightarrow> pystr list option \<times> world" where
  "search_book_id net query w =
     (let (html, w') = http_get net (SEARCH_URL @ query) w
      in case html of
           None \<Rightarrow> (None, w')
         | Some doc \<Rightarrow>
             (let item_elements = take 10 (xpath doc ITEM_XPATH)
              in (Some [the (attrib el (ascii ''itemid'')).
                          el \<leftarrow> item_elements, attrib el (ascii ''itemid'') \<noteq> None], w')))"

section \<open>The author/publisher heuristic\<close>

text \<open>The first loop of \<open>_parse_author_and_publisher\<close>: it returns the index after the
  loop together with the authors collected.\<close>

function author_scan :: "pystr list \<Rightarrow> nat \<Rightarrow> pystr list \<Rightarrow> error + (nat \<times> pystr list)" where
  "author_scan sub i collected =
     (if i \<noteq> length sub then
        (case subscript sub (int i) of
           Inl e \<Rightarrow> Inl e
         | Inr fragment \<Rightarrow>
             (let author = strip fragment
              in if contains AUTHOR_END_MARK author then Inr (i + 1, collected)
                 else if author \<noteq> ascii '','' \<and> author \<noteq> [] then
                   author_scan sub (i + 1) (collected @ [author])
                 else author_scan sub (i + 1) collected))
      else Inr (i, collected))"
  by pat_completeness auto
termination
  by (relation "measure (\<lambda>(sub, i, collected). length sub - i)")
     (auto simp: subscript_def split: if_splits)

text \<open>The second loop: \<open>while i != len(sub) and sub[i].strip() != date_string\<close>.\<close>

function date_scan :: "pystr list \<Rightarrow> pystr \<Rightarrow> nat \<Rightarrow> error + nat" where
  "date_scan sub date_string i =
     (if i \<noteq> length sub then
        (case subscript sub (int i) of
           Inl e \<Rightarrow> Inl e
         | Inr fragment \<Rightarrow>
             if strip fragment \<noteq> date_string then date_scan sub date_string (i + 1)
             else Inr i)
      else Inr i)"
  by pat_completeness auto
termination
  by (relation "measure (\<lambda>(sub, date_string, i). length sub - i)")
     (auto simp: subscript_def split: if_splits)

text \<open>The loop equations are unfolded by hand, one iteration at a time.\<close>

declare author_scan.simps [simp del]
declare date_scan.simps [simp del]

text \<open>A fragment stops the author scan when its trimmed text contains the marker; a
  trimmed fragment is kept as an author unless it is a bare comma or empty.\<close>

abbreviation is_marker :: "pystr \<Rightarrow> bool" where
  "is_marker fragment \<equiv> contains AUTHOR_END_MARK (strip fragment)"

abbreviation is_name :: "pystr \<Rightarrow> bool" where
  "is_name author \<equiv> author \<noteq> ascii '','' \<and> author \<noteq> []"

definition parse_author_and_publisher :: "html \<Rightarrow> error + (pystr list \<times> pystr)" where
  "parse_author_and_publisher doc =
     (case subscript (xpath doc AUTHORS_AND_PUBLISHER_XPATH) 0 of
        Inl e \<Rightarrow> Inl e
      | Inr block \<Rightarrow>
          (let sub = itertext block
           in case author_scan sub 0 [] of
                Inl e \<Rightarrow> Inl e
              | Inr (i, collected) \<Rightarrow>
                  (case first_content doc PUBLISHED_DATE_XPATH of
                     Inl e \<Rightarrow> Inl e
                   | Inr None \<Rightarrow> Inl AttributeError
                   | Inr (Some content) \<Rightarrow>
                       (let date_string = strip content
                        in case date_scan sub date_string i of
                             Inl e \<Rightarrow> Inl e
                           | Inr j \<Rightarrow>
                               if j \<noteq> length sub then
                                 (case subscript sub (int j - 1) of
                                    Inl e \<Rightarrow> Inl e
                                  | Inr fragment \<Rightarrow> Inr (collected, fragment))
                               else Inr (collected, [])))))"

section \<open>The item fetcher\<close>

definition get_description :: "html \<Rightarrow> error + pystr option" where
  "get_description doc = first_content doc DESCRIPTION_XPATH"

text \<open>
  \<open>float(html.xpath(self.RAITING10_XPATH))\<close> applies \<open>float\<close> to the list that \<open>xpath\<close>
  returns, and \<open>float\<close> of a list raises \<open>TypeError\<close> whatever the list holds. The
  subscript, \<open>.text.strip()\<close> and the scaling \<open>int(raiting_10 // 2 + 0.5)\<close> that follow
  are never evaluated.
\<close>

definition float_of_list :: "element list \<Rightarrow> error + real" where
  "float_of_list els = Inl TypeError"

text \<open>The inner \<open>try\<close> of \<open>_fetch_book\<close>: any exception gives the rating \<open>0\<close>. A float has
  no subscript, so the branch of a successful \<open>float\<close> would raise \<open>TypeError\<close> as well.\<close>

definition fetch_rating :: "html \<Rightarrow> int" where
  "fetch_rating doc =
     (case float_of_list (xpath doc RAITING10_XPATH) of
        Inl e \<Rightarrow> 0
      | Inr raiting_10 \<Rightarrow> 0)"

text \<open>The body of the outer \<open>try\<close> of \<open>_fetch_book\<close>, in the order of the source.\<close>

definition fetch_book_body :: "html \<Rightarrow> pystr \<Rightarrow> pystr \<Rightarrow> pystr \<Rightarrow> error + MetaRecord" where
  "fetch_book_body doc book_id book_url generic_cover =
     (case first_content doc TITLE_XPATH of
        Inl e \<Rightarrow> Inl e
      | Inr title_value \<Rightarrow>
     (case parse_author_and_publisher doc of
        Inl e \<Rightarrow> Inl e
      | Inr (authors_value, publisher_value) \<Rightarrow>
     (let source_value = \<lparr>source_id = provider_id, source_description = DESCRIPTION,
                          source_link = META_URL\<rparr>
      in
     (case first_content doc COVER_XPATH of
        Inl e \<Rightarrow> Inl e
      | Inr cover_content \<Rightarrow>
     (let cover_value = str_or cover_content generic_cover
      in
     (case get_description doc of
        Inl e \<Rightarrow> Inl e
      | Inr description_value \<Rightarrow>
     (case first_content doc ISBN_XPATH of
        Inl e \<Rightarrow> Inl e
      | Inr isbn \<Rightarrow>
     (let identifiers_value = [ascii ''isbn'' \<mapsto> isbn]
      in
     (case first_content doc PUBLISHED_DATE_XPATH of
        Inl e \<Rightarrow> Inl e
      | Inr publishedDate_value \<Rightarrow>
     (let raiting = fetch_rating doc
      in Inr \<lparr>ident = book_id, title = title_value, authors = authors_value,
              url = book_url, source = source_value, cover = cover_value,
              description = description_value, identifiers = identifiers_value,
              publisher = publisher_value, publishedDate = publishedDate_value,
              rating = raiting\<rparr>))))))))))"

definition fetch_book :: "network \<Rightarrow> pystr \<Rightarrow> pystr \<Rightarrow> world \<Rightarrow> MetaRecord option \<times> world" where
  "fetch_book net book_id generic_cover w =
     (let book_url = BOOK_URL @ ascii ''?ItemId='' @ book_id;
          (html, w') = http_get net book_url w
      in case html of
           None \<Rightarrow> (None, w')
         | Some doc \<Rightarrow>
             (case fetch_book_body doc book_id book_url generic_cover of
                Inl e \<Rightarrow> (None, w')
              | Inr r \<Rightarrow> (Some r, w')))"

section \<open>The search call\<close>

text \<open>
  One task per identifier is submitted to the pool. A task never raises (\<open>_fetch_book\<close>
  catches everything), and its only effect is the request of its page, counted in
  \<open>requested\<close>, so running the tasks one after the other gives the results in
  submission order and the same final \<open>world\<close> as any interleaving.
\<close>

fun submit_all :: "network \<Rightarrow> pystr \<Rightarrow> pystr list \<Rightarrow> world \<Rightarrow> MetaRecord option list \<times> world" where
  "submit_all net generic_cover [] w = ([], w)"
| "submit_all net generic_cover (book_id # ids) w =
     (let (r, w') = fetch_book net book_id generic_cover w;
          (rs, w'') = submit_all net generic_cover ids w'
      in (r # rs, w''))"

text \<open>
  \<open>futures.as_completed\<close> yields every future once, in completion order: the order is a
  parameter of the model, a function that rearranges the list of results. A
  \<open>MetaRecord\<close> is a dataclass instance and so truthy; \<open>None\<close> is falsy.
\<close>

type_synonym completion = "MetaRecord option list \<Rightarrow> MetaRecord option list"

definition search ::
  "bool \<Rightarrow> tokenizer \<Rightarrow> network \<Rightarrow> completion \<Rightarrow> pystr \<Rightarrow> pystr \<Rightarrow> pystr \<Rightarrow> world
     \<Rightarrow> error + (MetaRecord list option \<times> world)" where
  "search active get_title_tokens net as_completed query generic_cover locale_hint w =
     (let val = []
      in if active then
           (case parse_query get_title_tokens query of
              Inl e \<Rightarrow> Inl e
            | Inr query' \<Rightarrow>
                (let (book_id_list, w1) = search_book_id net query' w
                 in if book_id_list = None \<or> book_id_list = Some [] then
                      Inr (None, w1\<lparr>printed := printed w1 @ [ascii ''No book found'']\<rparr>)
                    else
                      (let (future_list, w2) = submit_all net generic_cover (the book_id_list) w1
                       in Inr (Some [the r. r \<leftarrow> as_completed future_list, r \<noteq> None], w2))))
         else Inr (Some val, w))"

section \<open>Example pages\<close>

text \<open>Concrete pages, a network serving them and a tokenizer, used to run the
  definitions.\<close>

definition meta_tag :: "pystr \<Rightarrow> element" where
  "meta_tag content = \<lparr>attrib = [ascii ''content'' \<mapsto> content], text_of = None, itertext = []\<rparr>"

definition text_block :: "pystr list \<Rightarrow> element" where
  "text_block fragments = \<lparr>attrib = Map.empty, text_of = None, itertext = fragments\<rparr>"

definition anchor :: "pystr \<Rightarrow> element" where
  "anchor t = \<lparr>attrib = Map.empty, text_of = Some t, itertext = [t]\<rparr>"

definition item_box :: "pystr option \<Rightarrow> element" where
  "item_box itemid =
     \<lparr>attrib = (case itemid of None \<Rightarrow> Map.empty | Some v \<Rightarrow> [ascii ''itemid'' \<mapsto> v]),
      text_of = None, itertext = []\<rparr>"

definition empty_page :: html where
  "empty_page = (\<lambda>sel. [])"

text \<open>A complete detail page: the fragments and the date of the spec's example, and a
  rating anchor with the text \<open>8.5\<close>.\<close>

definition book_page :: html where
  "book_page = empty_page
     (TITLE_XPATH := [meta_tag (ascii ''A Title'')],
      AUTHORS_AND_PUBLISHER_XPATH :=
        [text_block [ascii ''Jane Doe'', AUTHOR_END_MARK, ascii ''Acme Press'', ascii ''2020-01-01'']],
      COVER_XPATH := [meta_tag (ascii ''cover.jpg'')],
      DESCRIPTION_XPATH := [meta_tag (ascii ''About'')],
      ISBN_XPATH := [meta_tag (ascii ''9780000000000'')],
      PUBLISHED_DATE_XPATH := [meta_tag (ascii ''2020-01-01'')],
      RAITING10_XPATH := [anchor (ascii ''8.5'')])"

text \<open>The same page without the \<open>og:image\<close> tag, without the \<open>og:title\<close> tag, and with
  other fragment sequences.\<close>

definition no_cover_page :: html where
  "no_cover_page = book_page (COVER_XPATH := [])"

definition no_title_page :: html where
  "no_title_page = book_page (TITLE_XPATH := [])"

definition undated_page :: html where
  "undated_page = book_page
     (AUTHORS_AND_PUBLISHER_XPATH :=
        [text_block [ascii ''Jane Doe'', AUTHOR_END_MARK, ascii ''Acme Press'', ascii ''2021'']])"

definition spaced_page :: html where
  "spaced_page = book_page
     (AUTHORS_AND_PUBLISHER_XPATH :=
        [text_block [ascii '' Jane Doe '', ascii '','', ascii ''John Roe'', AUTHOR_END_MARK,
                     ascii '' Acme Press '', ascii '' 2020-01-01 '']])"

definition marker_first_page :: html where
  "marker_first_page = book_page
     (AUTHORS_AND_PUBLISHER_XPATH :=
        [text_block [ascii ''Jane Doe'', ascii '' '' @ AUTHOR_END_MARK @ ascii '' '',
                     ascii ''2020-01-01'']])"

definition few_results_page :: html where
  "few_results_page = empty_page
     (ITEM_XPATH := [item_box (Some (ascii ''1001'')), item_box None, item_box (Some (ascii ''1002'')),
                     item_box (Some (ascii ''1003''))])"

definition many_results_page :: html where
  "many_results_page = empty_page
     (ITEM_XPATH := [item_box (Some (ascii ''1001'')), item_box None, item_box (Some (ascii ''1002'')),
                     item_box (Some (ascii ''1003'')), item_box (Some (ascii ''1004'')),
                     item_box (Some (ascii ''1005'')), item_box (Some (ascii ''1006'')),
                     item_box (Some (ascii ''1007'')), item_box (Some (ascii ''1008'')),
                     item_box (Some (ascii ''1009'')), item_box (Some (ascii ''1010'')),
                     item_box (Some (ascii ''1011''))])"

text \<open>The record that the complete page gives for the item \<open>1001\<close>.\<close>

definition book_record :: "pystr \<Rightarrow> MetaRecord" where
  "book_record generic_cover =
     \<lparr>ident = ascii ''1001'', title = Some (ascii ''A Title''), authors = [ascii ''Jane Doe''],
      url = BOOK_URL @ ascii ''?ItemId='' @ ascii ''1001'',
      source = \<lparr>source_id = provider_id, source_description = DESCRIPTION,
                source_link = META_URL\<rparr>,
      cover = ascii ''cover.jpg'', description = Some (ascii ''About''),
      identifiers = [ascii ''isbn'' \<mapsto> Some (ascii ''9780000000000'')],
      publisher = ascii ''Acme Press'', publishedDate = Some (ascii ''2020-01-01''),
      rating = 0\<rparr>"

text \<open>The network: two search-result pages, one with no result items, and three item
  pages; every other request fails.\<close>

definition example_net :: network where
  "example_net request =
     (if request = SEARCH_URL @ ascii ''book'' then Some few_results_page
      else if request = SEARCH_URL @ ascii ''many'' then Some many_results_page
      else if request = SEARCH_URL @ ascii ''none'' then Some empty_page
      else if request = BOOK_URL @ ascii ''?ItemId=1001'' then Some book_page
      else if request = BOOK_URL @ ascii ''?ItemId=1002'' then Some no_cover_page
      else if request = BOOK_URL @ ascii ''?ItemId=1003'' then Some no_title_page
      else None)"

text \<open>A tokenizer in the manner of \<open>str.split()\<close>: the maximal runs without whitespace.\<close>

fun split_words :: "pystr \<Rightarrow> pystr \<Rightarrow> pystr list" where
  "split_words word [] = (if word = [] then [] else [word])"
| "split_words word (c # cs) =
     (if py_isspace c then (if word = [] then split_words [] cs else word # split_words [] cs)
      else split_words (word @ [c]) cs)"

definition split_tokens :: tokenizer where
  "split_tokens query strip_joiners = split_words [] query"

definition fresh_world :: world where
  "fresh_world = \<lparr>printed = [], requested = {#}\<rparr>"

section \<open>Running the examples\<close>

lemma concat_map_if:
  "concat (map (\<lambda>x. if P x then [f x] else []) xs) = map f (filter P xs)"
  by (induction xs) auto

lemma search_book_id_failed:
  "net (SEARCH_URL @ query) = None \<Longrightarrow>
   search_book_id net query w = (None, w\<lparr>requested := add_mset (SEARCH_URL @ query) (requested w)\<rparr>)"
  by (simp add: search_book_id_def http_get_def)

lemma search_book_id_fetched:
  "net (SEARCH_URL @ query) = Some doc \<Longrightarrow>
   search_book_id net query w =
     (Some (map (\<lambda>el. the (attrib el (ascii ''itemid'')))
              (filter (\<lambda>el. attrib el (ascii ''itemid'') \<noteq> None) (take 10 (xpath doc ITEM_XPATH)))),
      w\<lparr>requested := add_mset (SEARCH_URL @ query) (requested w)\<rparr>)"
  by (simp add: search_book_id_def http_get_def Let_def concat_map_if)

lemma example_net_many: "example_net (SEARCH_URL @ ascii ''many'') = Some many_results_page"
  by (simp add: example_net_def ascii_def)

lemma example_net_book: "example_net (SEARCH_URL @ ascii ''book'') = Some few_results_page"
  by (simp add: example_net_def ascii_def)

lemma example_net_none: "example_net (SEARCH_URL @ ascii ''none'') = Some empty_page"
  by (simp add: example_net_def ascii_def)

lemma example_net_fail: "example_net (SEARCH_URL @ ascii ''fail'') = None"
  by (simp add: example_net_def ascii_def SEARCH_URL_def BOOK_URL_def)

lemma example_net_item1: "example_net (BOOK_URL @ ascii ''?ItemId='' @ ascii ''1001'') = Some book_page"
  by (simp add: example_net_def ascii_def SEARCH_URL_def BOOK_URL_def)

lemma example_net_item2: "example_net (BOOK_URL @ ascii ''?ItemId='' @ ascii ''1002'') = Some no_cover_page"
  by (simp add: example_net_def ascii_def SEARCH_URL_def BOOK_URL_def)

lemma example_net_item3: "example_net (BOOK_URL @ ascii ''?ItemId='' @ ascii ''1003'') = Some no_title_page"
  by (simp add: example_net_def ascii_def SEARCH_URL_def BOOK_URL_def)

lemma many_results_ids:
  "map (\<lambda>el. the (attrib el (ascii ''itemid'')))
     (filter (\<lambda>el. attrib el (ascii ''itemid'') \<noteq> None) (take 10 (xpath many_results_page ITEM_XPATH)))
   = map ascii [''1001'', ''1002'', ''1003'', ''1004'', ''1005'', ''1006'', ''1007'', ''1008'', ''1009'']"
  by (simp add: many_results_page_def xpath_def empty_page_def item_box_def)

lemma few_results_ids:
  "map (\<lambda>el. the (attrib el (ascii ''itemid'')))
     (filter (\<lambda>el. attrib el (ascii ''itemid'') \<noteq> None) (take 10 (xpath few_results_page ITEM_XPATH)))
   = map ascii [''1001'', ''1002'', ''1003'']"
  by (simp add: few_results_page_def xpath_def empty_page_def item_box_def)

lemma split_tokens_word:
  "split_tokens (ascii ''many'') False = [ascii ''many'']"
  "split_tokens (ascii ''book'') False = [ascii ''book'']"
  "split_tokens (ascii ''none'') False = [ascii ''none'']"
  "split_tokens (ascii ''fail'') False = [ascii ''fail'']"
  by (simp_all add: split_tokens_def ascii_def py_isspace_def)

lemma parse_query_word:
  "parse_query split_tokens (ascii ''many'') = Inr (ascii ''many'')"
  "parse_query split_tokens (ascii ''book'') = Inr (ascii ''book'')"
  "parse_query split_tokens (ascii ''none'') = Inr (ascii ''none'')"
  "parse_query split_tokens (ascii ''fail'') = Inr (ascii ''fail'')"
  by (simp_all add: parse_query_def split_tokens_word)
     (simp_all add: ascii_def encode_code_point_def quote_def quote_byte_def always_safe_def)

section \<open>Search-result identifiers: at most ten, only from nodes with an identifier\<close>

text \<open>
  C7. When the search-results page was fetched, \<open>_search_book_id\<close> returns a list of
  at most 10 identifiers: the \<open>itemid\<close> attributes of those among the first 10 result
  nodes that have the attribute, in document order. Nodes without it are skipped, so
  the list can be shorter than 10, and every identifier returned is the attribute of
  one of the first 10 nodes.
\<close>

theorem search_book_id_at_most_ten:
  assumes "net (SEARCH_URL @ query) = Some doc"
  shows "\<exists>ids. fst (search_book_id net query w) = Some ids
     \<and> length ids \<le> 10
     \<and> ids = map (\<lambda>el. the (attrib el (ascii ''itemid'')))
               (filter (\<lambda>el. attrib el (ascii ''itemid'') \<noteq> None) (take 10 (xpath doc ITEM_XPATH)))
     \<and> (\<forall>i \<in> set ids. \<exists>el \<in> set (take 10 (xpath doc ITEM_XPATH)). attrib el (ascii ''itemid'') = Some i)"
proof -
  let ?items = "take 10 (xpath doc ITEM_XPATH)"
  let ?has = "\<lambda>el. attrib el (ascii ''itemid'') \<noteq> None"
  let ?ids = "map (\<lambda>el. the (attrib el (ascii ''itemid''))) (filter ?has ?items)"
  have res: "fst (search_book_id net query w) = Some ?ids"
    using assms by (simp add: search_book_id_fetched)
  have "length ?ids = length (filter ?has ?items)"
    by (rule length_map)
  also have "\<dots> \<le> length ?items"
    by (rule length_filter_le)
  also have "\<dots> \<le> 10"
    by simp
  finally have len: "length ?ids \<le> 10" .
  have mem: "\<forall>i \<in> set ?ids. \<exists>el \<in> set ?items. attrib el (ascii ''itemid'') = Some i"
    by auto
  from res len mem show ?thesis
    by blast
qed

text \<open>A page with 12 result nodes, the second without \<open>itemid\<close>: nine identifiers come
  back, those of the first and the third to tenth node.\<close>

theorem search_book_id_at_most_ten_witness:
  "example_net (SEARCH_URL @ ascii ''many'') = Some many_results_page
   \<and> length (xpath many_results_page ITEM_XPATH) = 12
   \<and> fst (search_book_id example_net (ascii ''many'') fresh_world)
       = Some (map ascii [''1001'', ''1002'', ''1003'', ''1004'', ''1005'', ''1006'', ''1007'', ''1008'', ''1009''])"
proof -
  have len: "length (xpath many_results_page ITEM_XPATH) = 12"
    by (simp add: many_results_page_def xpath_def empty_page_def)
  from search_book_id_at_most_ten
    [of example_net "ascii ''many''" many_results_page fresh_world, OF example_net_many]
  have "fst (search_book_id example_net (ascii ''many'') fresh_world)
       = Some (map ascii [''1001'', ''1002'', ''1003'', ''1004'', ''1005'', ''1006'', ''1007'', ''1008'', ''1009''])"
    unfolding many_results_ids by blast
  with len example_net_many show ?thesis
    by blast
qed

section \<open>The inactive provider\<close>

text \<open>
  C9. When the provider's \<open>active\<close> flag is false, \<open>search\<close> returns the empty list, not
  \<open>None\<close>, whatever the query, the generic cover and the locale are. The world is
  unchanged: nothing is requested and nothing is printed. The result holds for every
  tokenizer, also one whose tokens cannot be encoded, so the query is not normalised.
\<close>

theorem search_inactive:
  "search False get_title_tokens net as_completed query generic_cover locale_hint w =
     Inr (Some [], w)"
  by (simp add: search_def)

section \<open>A failed search and a search without matches\<close>

text \<open>
  C5. When the search-results page cannot be fetched or parsed, \<open>_search_book_id\<close>
  returns \<open>None\<close>; when the page is fetched and none of its first 10 result nodes has
  an identifier, it returns the empty list, a different value. In both cases the
  top-level \<open>search\<close> prints \<open>No book found\<close> and returns \<open>None\<close>, not an empty list:
  the two calls end with the same result and the same printed line.
\<close>

theorem search_nothing_found:
  assumes "parse_query get_title_tokens query = Inr q"
  shows "(net (SEARCH_URL @ q) = None \<longrightarrow>
            fst (search_book_id net q w) = None
          \<and> search True get_title_tokens net as_completed query generic_cover locale_hint w =
              Inr (None, w\<lparr>printed := printed w @ [ascii ''No book found''],
                            requested := add_mset (SEARCH_URL @ q) (requested w)\<rparr>))
       \<and> (\<forall>doc. net (SEARCH_URL @ q) = Some doc
             \<and> filter (\<lambda>el. attrib el (ascii ''itemid'') \<noteq> None) (take 10 (xpath doc ITEM_XPATH)) = [] \<longrightarrow>
            fst (search_book_id net q w) = Some []
          \<and> search True get_title_tokens net as_completed query generic_cover locale_hint w =
              Inr (None, w\<lparr>printed := printed w @ [ascii ''No book found''],
                            requested := add_mset (SEARCH_URL @ q) (requested w)\<rparr>))"
proof (intro conjI impI allI)
  assume "net (SEARCH_URL @ q) = None"
  then show "fst (search_book_id net q w) = None"
    by (simp add: search_book_id_failed)
next
  assume "net (SEARCH_URL @ q) = None"
  then show "search True get_title_tokens net as_completed query generic_cover locale_hint w =
              Inr (None, w\<lparr>printed := printed w @ [ascii ''No book found''],
                            requested := add_mset (SEARCH_URL @ q) (requested w)\<rparr>)"
    using assms by (simp add: search_def search_book_id_failed)
next
  fix doc
  assume a: "net (SEARCH_URL @ q) = Some doc
     \<and> filter (\<lambda>el. attrib el (ascii ''itemid'') \<noteq> None) (take 10 (xpath doc ITEM_XPATH)) = []"
  then show "fst (search_book_id net q w) = Some []"
    by (simp add: search_book_id_fetched)
  from a show "search True get_title_tokens net as_completed query generic_cover locale_hint w =
              Inr (None, w\<lparr>printed := printed w @ [ascii ''No book found''],
                            requested := add_mset (SEARCH_URL @ q) (requested w)\<rparr>)"
    using assms by (simp add: search_def search_book_id_fetched)
qed

text \<open>The query \<open>fail\<close>, whose search page cannot be fetched, and the query \<open>none\<close>,
  whose search page has no result node.\<close>

theorem search_nothing_found_witness:
  "parse_query split_tokens (ascii ''fail'') = Inr (ascii ''fail'')
   \<and> example_net (SEARCH_URL @ ascii ''fail'') = None
   \<and> fst (search_book_id example_net (ascii ''fail'') fresh_world) = None
   \<and> search True split_tokens example_net rev (ascii ''fail'') (ascii ''generic.jpg'') (ascii ''en'')
        fresh_world =
      Inr (None, \<lparr>printed = [ascii ''No book found''],
                  requested = {#SEARCH_URL @ ascii ''fail''#}\<rparr>)
   \<and> parse_query split_tokens (ascii ''none'') = Inr (ascii ''none'')
   \<and> example_net (SEARCH_URL @ ascii ''none'') = Some empty_page
   \<and> fst (search_book_id example_net (ascii ''none'') fresh_world) = Some []
   \<and> search True split_tokens example_net rev (ascii ''none'') (ascii ''generic.jpg'') (ascii ''en'')
        fresh_world =
      Inr (None, \<lparr>printed = [ascii ''No book found''],
                  requested = {#SEARCH_URL @ ascii ''none''#}\<rparr>)"
proof -
  have empty: "filter (\<lambda>el. attrib el (ascii ''itemid'') \<noteq> None)
                 (take 10 (xpath empty_page ITEM_XPATH)) = []"
    by (simp add: empty_page_def xpath_def)
  have failed:
    "fst (search_book_id example_net (ascii ''fail'') fresh_world) = None
     \<and> search True split_tokens example_net rev (ascii ''fail'') (ascii ''generic.jpg'') (ascii ''en'')
          fresh_world =
        Inr (None, fresh_world\<lparr>printed := printed fresh_world @ [ascii ''No book found''],
                      requested := add_mset (SEARCH_URL @ ascii ''fail'') (requested fresh_world)\<rparr>)"
    using search_nothing_found [where get_title_tokens = split_tokens and query = "ascii ''fail''"
        and q = "ascii ''fail''" and net = example_net and w = fresh_world and as_completed = rev
        and generic_cover = "ascii ''generic.jpg''" and locale_hint = "ascii ''en''",
        OF parse_query_word(4)] example_net_fail
    by blast
  have zero_match:
    "fst (search_book_id example_net (ascii ''none'') fresh_world) = Some []
     \<and> search True split_tokens example_net rev (ascii ''none'') (ascii ''generic.jpg'') (ascii ''en'')
          fresh_world =
        Inr (None, fresh_world\<lparr>printed := printed fresh_world @ [ascii ''No book found''],
                      requested := add_mset (SEARCH_URL @ ascii ''none'') (requested fresh_world)\<rparr>)"
    using search_nothing_found [where get_title_tokens = split_tokens and query = "ascii ''none''"
        and q = "ascii ''none''" and net = example_net and w = fresh_world and as_completed = rev
        and generic_cover = "ascii ''generic.jpg''" and locale_hint = "ascii ''en''",
        OF parse_query_word(3)] example_net_none empty
    by blast
  have world: "fresh_world\<lparr>printed := printed fresh_world @ [s], requested := add_mset u (requested fresh_world)\<rparr>
      = \<lparr>printed = [s], requested = {#u#}\<rparr>" for s u
    by (simp add: fresh_world_def)
  from failed zero_match parse_query_word(3,4) example_net_fail example_net_none show ?thesis
    by (simp add: world)
qed

section \<open>The two loops of the author/publisher heuristic\<close>

text \<open>Reading the fragment at the current index, where \<open>seen\<close> holds the fragments
  before it.\<close>

lemma subscript_after_seen:
  "subscript (seen @ x # xs) (int (length seen)) = Inr x"
  by (simp add: subscript_def)

lemma author_scan_step_marker:
  "is_marker x \<Longrightarrow>
   author_scan (seen @ x # xs) (length seen) acc = Inr (length seen + 1, acc)"
  by (subst author_scan.simps) (simp add: subscript_after_seen)

lemma author_scan_step_name:
  "\<not> is_marker x \<Longrightarrow> is_name (strip x) \<Longrightarrow>
   author_scan (seen @ x # xs) (length seen) acc =
   author_scan ((seen @ [x]) @ xs) (length (seen @ [x])) (acc @ [strip x])"
  by (subst author_scan.simps) (simp add: subscript_after_seen)

lemma author_scan_step_skip:
  "\<not> is_marker x \<Longrightarrow> \<not> is_name (strip x) \<Longrightarrow>
   author_scan (seen @ x # xs) (length seen) acc =
   author_scan ((seen @ [x]) @ xs) (length (seen @ [x])) acc"
  by (subst author_scan.simps) (auto simp add: subscript_after_seen)

lemma author_scan_end:
  "author_scan seen (length seen) acc = Inr (length seen, acc)"
  by (subst author_scan.simps) simp

lemma author_scan_no_marker:
  "\<forall>f \<in> set xs. \<not> is_marker f \<Longrightarrow>
   author_scan (seen @ xs) (length seen) acc =
     Inr (length seen + length xs, acc @ filter is_name (map strip xs))"
proof (induction xs arbitrary: seen acc)
  case Nil
  then show ?case by (simp add: author_scan_end)
next
  case (Cons x xs)
  have nm: "\<not> is_marker x" using Cons.prems by simp
  have rest: "\<forall>f \<in> set xs. \<not> is_marker f" using Cons.prems by simp
  show ?case
  proof (cases "is_name (strip x)")
    case True
    then show ?thesis
      using author_scan_step_name [OF nm True, of seen xs acc]
        Cons.IH [OF rest, of "seen @ [x]" "acc @ [strip x]"]
      by simp
  next
    case False
    then show ?thesis
      using author_scan_step_skip [OF nm False, of seen xs acc]
        Cons.IH [OF rest, of "seen @ [x]" acc]
      by simp
  qed
qed

lemma author_scan_marker:
  "\<forall>f \<in> set pre. \<not> is_marker f \<Longrightarrow> is_marker m \<Longrightarrow>
   author_scan (seen @ pre @ m # post) (length seen) acc =
     Inr (length seen + length pre + 1, acc @ filter is_name (map strip pre))"
proof (induction pre arbitrary: seen acc)
  case Nil
  then show ?case by (simp add: author_scan_step_marker)
next
  case (Cons x xs)
  have nm: "\<not> is_marker x" using Cons.prems by simp
  have rest: "\<forall>f \<in> set xs. \<not> is_marker f" using Cons.prems by simp
  show ?case
  proof (cases "is_name (strip x)")
    case True
    then show ?thesis
      using author_scan_step_name [OF nm True, of seen "xs @ m # post" acc]
        Cons.IH [OF rest Cons.prems(2), of "seen @ [x]" "acc @ [strip x]"]
      by simp
  next
    case False
    then show ?thesis
      using author_scan_step_skip [OF nm False, of seen "xs @ m # post" acc]
        Cons.IH [OF rest Cons.prems(2), of "seen @ [x]" acc]
      by simp
  qed
qed

lemma date_scan_end:
  "date_scan seen d (length seen) = Inr (length seen)"
  by (subst date_scan.simps) simp

lemma date_scan_step:
  "strip x \<noteq> d \<Longrightarrow>
   date_scan (seen @ x # xs) d (length seen) = date_scan ((seen @ [x]) @ xs) d (length (seen @ [x]))"
  by (subst date_scan.simps) (simp add: subscript_after_seen)

lemma date_scan_hit:
  "strip x = d \<Longrightarrow> date_scan (seen @ x # xs) d (length seen) = Inr (length seen)"
  by (subst date_scan.simps) (simp add: subscript_after_seen)

lemma date_scan_no_match:
  "\<forall>f \<in> set xs. strip f \<noteq> d \<Longrightarrow>
   date_scan (seen @ xs) d (length seen) = Inr (length seen + length xs)"
proof (induction xs arbitrary: seen)
  case Nil
  then show ?case by (simp add: date_scan_end)
next
  case (Cons x xs)
  then show ?case
    using date_scan_step [of x d seen xs] Cons.IH [of "seen @ [x]"]
    by simp
qed

lemma date_scan_match:
  "\<forall>f \<in> set mid. strip f \<noteq> d \<Longrightarrow> strip x = d \<Longrightarrow>
   date_scan (seen @ mid @ x # rest) d (length seen) = Inr (length seen + length mid)"
proof (induction mid arbitrary: seen)
  case Nil
  then show ?case by (simp add: date_scan_hit)
next
  case (Cons y ys)
  then show ?case
    using date_scan_step [of y d seen "ys @ x # rest"] Cons.IH [of "seen @ [y]"]
    by simp
qed

section \<open>The heuristic on a page\<close>

lemma first_content_present:
  "xpath doc sel = el # others \<Longrightarrow> first_content doc sel = Inr (attrib el (ascii ''content''))"
  by (simp add: first_content_def subscript_def)

lemma first_content_absent:
  "xpath doc sel = [] \<Longrightarrow> first_content doc sel = Inl IndexError"
  by (simp add: first_content_def subscript_def)

lemma subscript_nat:
  "n < length xs \<Longrightarrow> subscript xs (int n) = Inr (xs ! n)"
  by (simp add: subscript_def)

lemma subscript_first: "subscript (x # xs) 0 = Inr x"
  by (simp add: subscript_def)

lemma parse_after_scans:
  assumes "xpath doc AUTHORS_AND_PUBLISHER_XPATH = block # others"
    and "itertext block = sub"
    and date: "xpath doc PUBLISHED_DATE_XPATH = d # others'"
    and "attrib d (ascii ''content'') = Some c"
    and "author_scan sub 0 [] = Inr (i, names)"
    and "date_scan sub (strip c) i = Inr j"
  shows "parse_author_and_publisher doc =
           (if j \<noteq> length sub then
              (case subscript sub (int j - 1) of
                 Inl e \<Rightarrow> Inl e
               | Inr fragment \<Rightarrow> Inr (names, fragment))
            else Inr (names, []))"
  using assms
  by (simp add: parse_author_and_publisher_def subscript_first Let_def
      first_content_present [OF date])

lemma parse_without_marker:
  assumes block: "xpath doc AUTHORS_AND_PUBLISHER_XPATH = block # others"
    and date: "xpath doc PUBLISHED_DATE_XPATH = d # others'"
    and content: "attrib d (ascii ''content'') = Some c"
    and none: "\<forall>f \<in> set (itertext block). \<not> is_marker f"
  shows "parse_author_and_publisher doc =
           Inr (filter is_name (map strip (itertext block)), [])"
proof -
  have scan: "author_scan (itertext block) 0 [] =
      Inr (length (itertext block), filter is_name (map strip (itertext block)))"
    using author_scan_no_marker [OF none, of "[]" "[]"] by simp
  have dscan: "date_scan (itertext block) (strip c) (length (itertext block)) =
      Inr (length (itertext block))"
    by (rule date_scan_end)
  show ?thesis
    by (simp add: parse_after_scans [OF block refl date content scan dscan])
qed

lemma parse_marker_no_date:
  assumes block: "xpath doc AUTHORS_AND_PUBLISHER_XPATH = block # others"
    and sub: "itertext block = pre @ m # post"
    and date: "xpath doc PUBLISHED_DATE_XPATH = d # others'"
    and content: "attrib d (ascii ''content'') = Some c"
    and pre: "\<forall>f \<in> set pre. \<not> is_marker f"
    and m: "is_marker m"
    and post: "\<forall>f \<in> set post. strip f \<noteq> strip c"
  shows "parse_author_and_publisher doc = Inr (filter is_name (map strip pre), [])"
proof -
  have scan: "author_scan (pre @ m # post) 0 [] =
      Inr (length pre + 1, filter is_name (map strip pre))"
    using author_scan_marker [OF pre m, of "[]" post "[]"] by simp
  have dscan: "date_scan (pre @ m # post) (strip c) (length pre + 1) =
      Inr (length pre + 1 + length post)"
    using date_scan_no_match [OF post, of "pre @ [m]"] by simp
  show ?thesis
    by (simp add: parse_after_scans [OF block sub date content scan dscan])
qed

lemma parse_marker_date:
  assumes block: "xpath doc AUTHORS_AND_PUBLISHER_XPATH = block # others"
    and sub: "itertext block = pre @ m # mid @ x # rest"
    and date: "xpath doc PUBLISHED_DATE_XPATH = d # others'"
    and content: "attrib d (ascii ''content'') = Some c"
    and pre: "\<forall>f \<in> set pre. \<not> is_marker f"
    and m: "is_marker m"
    and mid: "\<forall>f \<in> set mid. strip f \<noteq> strip c"
    and x: "strip x = strip c"
  shows "parse_author_and_publisher doc =
           Inr (filter is_name (map strip pre), last (m # mid))"
proof -
  let ?sub = "pre @ m # mid @ x # rest"
  let ?j = "length pre + 1 + length mid"
  have scan: "author_scan ?sub 0 [] = Inr (length pre + 1, filter is_name (map strip pre))"
    using author_scan_marker [OF pre m, of "[]" "mid @ x # rest" "[]"] by simp
  have dscan: "date_scan ?sub (strip c) (length pre + 1) = Inr ?j"
    using date_scan_match [OF mid x, of "pre @ [m]" rest] by simp
  have "?sub ! (length pre + length mid) = (m # mid @ x # rest) ! length mid"
    by (simp add: nth_append)
  also have "\<dots> = ((m # mid) @ x # rest) ! length mid"
    by simp
  also have "\<dots> = (m # mid) ! length mid"
    by (subst nth_append) simp
  also have "\<dots> = last (m # mid)"
    by (simp add: last_conv_nth)
  finally have nth: "?sub ! (length pre + length mid) = last (m # mid)" .
  have idx: "int ?j - 1 = int (length pre + length mid)"
    by simp
  have bound: "length pre + length mid < length ?sub"
    by simp
  have pick: "subscript ?sub (int ?j - 1) = Inr (last (m # mid))"
    by (simp only: idx subscript_nat [OF bound] nth)
  have neq: "?j \<noteq> length ?sub"
    by simp
  have "parse_author_and_publisher doc =
      (if ?j \<noteq> length ?sub then
         (case subscript ?sub (int ?j - 1) of
            Inl e \<Rightarrow> Inl e
          | Inr fragment \<Rightarrow> Inr (filter is_name (map strip pre), fragment))
       else Inr (filter is_name (map strip pre), []))"
    by (rule parse_after_scans [OF block sub date content scan dscan])
  also have "\<dots> = Inr (filter is_name (map strip pre), last (m # mid))"
    by (simp only: neq pick if_True sum.case not_False_eq_True simp_thms)
  finally show ?thesis .
qed

section \<open>The example fragments\<close>

lemmas string_eval =
  ascii_def strip_def lstrip_def rstrip_def py_isspace_def AUTHOR_END_MARK_def

lemma example_fragments:
  "\<not> is_marker (ascii ''Jane Doe'')"
  "\<not> is_marker (ascii '' Jane Doe '')"
  "\<not> is_marker (ascii '','')"
  "\<not> is_marker (ascii ''John Roe'')"
  "is_marker AUTHOR_END_MARK"
  "is_marker (ascii '' '' @ AUTHOR_END_MARK @ ascii '' '')"
  by (simp_all add: string_eval)

lemma example_strip:
  "strip (ascii ''Jane Doe'') = ascii ''Jane Doe''"
  "strip (ascii '' Jane Doe '') = ascii ''Jane Doe''"
  "strip (ascii '','') = ascii '',''"
  "strip (ascii ''John Roe'') = ascii ''John Roe''"
  "strip (ascii ''Acme Press'') = ascii ''Acme Press''"
  "strip (ascii '' Acme Press '') = ascii ''Acme Press''"
  "strip (ascii ''2020-01-01'') = ascii ''2020-01-01''"
  "strip (ascii '' 2020-01-01 '') = ascii ''2020-01-01''"
  "strip (ascii ''2021'') = ascii ''2021''"
  "strip AUTHOR_END_MARK = AUTHOR_END_MARK"
  by (simp_all add: string_eval)

lemma example_distinct:
  "ascii ''Acme Press'' \<noteq> ascii ''2020-01-01''"
  "ascii ''2021'' \<noteq> ascii ''2020-01-01''"
  "AUTHOR_END_MARK \<noteq> ascii ''2020-01-01''"
  "ascii ''Jane Doe'' \<noteq> ascii '',''"
  "ascii ''Jane Doe'' \<noteq> []"
  "ascii ''John Roe'' \<noteq> ascii '',''"
  "ascii ''John Roe'' \<noteq> []"
  by (simp_all add: string_eval)

lemma book_page_parts:
  "xpath book_page AUTHORS_AND_PUBLISHER_XPATH =
     text_block [ascii ''Jane Doe'', AUTHOR_END_MARK, ascii ''Acme Press'', ascii ''2020-01-01''] # []"
  "xpath book_page PUBLISHED_DATE_XPATH = meta_tag (ascii ''2020-01-01'') # []"
  "xpath book_page TITLE_XPATH = meta_tag (ascii ''A Title'') # []"
  "xpath book_page COVER_XPATH = meta_tag (ascii ''cover.jpg'') # []"
  "xpath book_page DESCRIPTION_XPATH = meta_tag (ascii ''About'') # []"
  "xpath book_page ISBN_XPATH = meta_tag (ascii ''9780000000000'') # []"
  "xpath book_page RAITING10_XPATH = anchor (ascii ''8.5'') # []"
  by (simp_all add: book_page_def xpath_def)

lemma meta_tag_content: "attrib (meta_tag c) (ascii ''content'') = Some c"
  by (simp add: meta_tag_def)

lemma itertext_text_block: "itertext (text_block fragments) = fragments"
  by (simp add: text_block_def)

lemma undated_page_parts:
  "xpath undated_page AUTHORS_AND_PUBLISHER_XPATH =
     text_block [ascii ''Jane Doe'', AUTHOR_END_MARK, ascii ''Acme Press'', ascii ''2021''] # []"
  "xpath undated_page PUBLISHED_DATE_XPATH = meta_tag (ascii ''2020-01-01'') # []"
  by (simp_all add: undated_page_def book_page_def xpath_def)

lemma spaced_page_parts:
  "xpath spaced_page AUTHORS_AND_PUBLISHER_XPATH =
     text_block [ascii '' Jane Doe '', ascii '','', ascii ''John Roe'', AUTHOR_END_MARK,
                 ascii '' Acme Press '', ascii '' 2020-01-01 ''] # []"
  "xpath spaced_page PUBLISHED_DATE_XPATH = meta_tag (ascii ''2020-01-01'') # []"
  by (simp_all add: spaced_page_def book_page_def xpath_def)

lemma marker_first_page_parts:
  "xpath marker_first_page AUTHORS_AND_PUBLISHER_XPATH =
     text_block [ascii ''Jane Doe'', ascii '' '' @ AUTHOR_END_MARK @ ascii '' '',
                 ascii ''2020-01-01''] # []"
  "xpath marker_first_page PUBLISHED_DATE_XPATH = meta_tag (ascii ''2020-01-01'') # []"
  by (simp_all add: marker_first_page_def book_page_def xpath_def)

section \<open>Authors and publisher\<close>

text \<open>
  C3. On the fragments \<open>Jane Doe\<close>, \<open>(author marker)\<close>, \<open>Acme Press\<close>, \<open>2020-01-01\<close> with
  the published date \<open>2020-01-01\<close>, the heuristic returns the authors \<open>[Jane Doe]\<close> and
  the publisher \<open>Acme Press\<close>. For every fragment sequence in which no fragment after
  the first marker fragment has a trimmed text equal to the date string, the publisher
  is the empty string (and the authors are the trimmed fragments before the marker
  that are neither empty nor a bare comma).
\<close>

theorem author_publisher_heuristic:
  assumes block: "xpath doc AUTHORS_AND_PUBLISHER_XPATH = block # others"
    and date: "xpath doc PUBLISHED_DATE_XPATH = d # others'"
    and content: "attrib d (ascii ''content'') = Some c"
  shows "(itertext block =
            [ascii ''Jane Doe'', AUTHOR_END_MARK, ascii ''Acme Press'', ascii ''2020-01-01'']
          \<and> c = ascii ''2020-01-01'' \<longrightarrow>
          parse_author_and_publisher doc = Inr ([ascii ''Jane Doe''], ascii ''Acme Press''))
       \<and> ((\<forall>f \<in> set (tl (dropWhile (\<lambda>f. \<not> is_marker f) (itertext block))).
              strip f \<noteq> strip c) \<longrightarrow>
          parse_author_and_publisher doc =
            Inr (filter is_name (map strip (takeWhile (\<lambda>f. \<not> is_marker f) (itertext block))),
                 []))"
proof (intro conjI impI)
  assume ex: "itertext block =
            [ascii ''Jane Doe'', AUTHOR_END_MARK, ascii ''Acme Press'', ascii ''2020-01-01'']
          \<and> c = ascii ''2020-01-01''"
  then have sub: "itertext block =
      [ascii ''Jane Doe''] @ AUTHOR_END_MARK # [ascii ''Acme Press''] @ ascii ''2020-01-01'' # []"
    by simp
  have pre: "\<forall>f \<in> set [ascii ''Jane Doe'']. \<not> is_marker f"
    by (simp add: example_fragments)
  have mid: "\<forall>f \<in> set [ascii ''Acme Press'']. strip f \<noteq> strip c"
    using ex by (simp add: example_strip example_distinct)
  have x: "strip (ascii ''2020-01-01'') = strip c"
    using ex by simp
  have "parse_author_and_publisher doc =
      Inr (filter is_name (map strip [ascii ''Jane Doe'']),
           last (AUTHOR_END_MARK # [ascii ''Acme Press'']))"
    by (rule parse_marker_date [OF block sub date content pre example_fragments(5) mid x])
  then show "parse_author_and_publisher doc = Inr ([ascii ''Jane Doe''], ascii ''Acme Press'')"
    by (simp add: example_strip example_distinct)
next
  let ?P = "\<lambda>f. \<not> is_marker f"
  let ?sub = "itertext block"
  assume no_date: "\<forall>f \<in> set (tl (dropWhile ?P ?sub)). strip f \<noteq> strip c"
  show "parse_author_and_publisher doc =
      Inr (filter is_name (map strip (takeWhile ?P ?sub)), [])"
  proof (cases "dropWhile ?P ?sub")
    case Nil
    then have all: "\<forall>f \<in> set ?sub. \<not> is_marker f"
      by (simp add: dropWhile_eq_Nil_conv)
    then have whole: "takeWhile ?P ?sub = ?sub"
      by (simp add: takeWhile_eq_all_conv)
    show ?thesis
      unfolding whole by (rule parse_without_marker [OF block date content all])
  next
    case (Cons m post)
    have split: "?sub = takeWhile ?P ?sub @ m # post"
      using takeWhile_dropWhile_id [of ?P ?sub] Cons by simp
    have pre: "\<forall>f \<in> set (takeWhile ?P ?sub). \<not> is_marker f"
      by (auto dest: set_takeWhileD)
    have m: "is_marker m"
      using hd_dropWhile [of ?P ?sub] Cons by simp
    have post: "\<forall>f \<in> set post. strip f \<noteq> strip c"
      using no_date Cons by simp
    show ?thesis
      by (rule parse_marker_no_date [OF block split date content pre m post])
  qed
qed

text \<open>The spec's example page, and the same fragments with \<open>2021\<close> in the place of the
  date: the publisher is empty.\<close>

theorem author_publisher_heuristic_witness:
  "parse_author_and_publisher book_page = Inr ([ascii ''Jane Doe''], ascii ''Acme Press'')
   \<and> parse_author_and_publisher undated_page = Inr ([ascii ''Jane Doe''], [])"
proof -
  have first: "parse_author_and_publisher book_page = Inr ([ascii ''Jane Doe''], ascii ''Acme Press'')"
    using author_publisher_heuristic [OF book_page_parts(1) book_page_parts(2) meta_tag_content]
    by (simp add: itertext_text_block)
  have "parse_author_and_publisher undated_page =
      Inr (filter is_name (map strip (takeWhile (\<lambda>f. \<not> is_marker f)
             [ascii ''Jane Doe'', AUTHOR_END_MARK, ascii ''Acme Press'', ascii ''2021''])), [])"
    using author_publisher_heuristic [OF undated_page_parts(1) undated_page_parts(2) meta_tag_content]
    by (simp add: itertext_text_block string_eval)
  then have second: "parse_author_and_publisher undated_page = Inr ([ascii ''Jane Doe''], [])"
    by (simp add: string_eval)
  from first second show ?thesis
    by simp
qed

section \<open>The publisher is the fragment as it stands\<close>

text \<open>
  C10. When, after the fragments before the marker fragment \<open>m\<close>, the first fragment
  whose trimmed text equals the (trimmed) date string is \<open>x\<close>, the publisher is the
  fragment just before \<open>x\<close> as it stands in the sequence, untrimmed, while the authors
  are trimmed fragments. In particular, when \<open>x\<close> directly follows the marker fragment,
  the publisher is the marker fragment itself.
\<close>

theorem publisher_is_raw_fragment:
  assumes block: "xpath doc AUTHORS_AND_PUBLISHER_XPATH = block # others"
    and sub: "itertext block = pre @ m # mid @ x # rest"
    and date: "xpath doc PUBLISHED_DATE_XPATH = d # others'"
    and content: "attrib d (ascii ''content'') = Some c"
    and pre: "\<forall>f \<in> set pre. \<not> is_marker f"
    and m: "is_marker m"
    and mid: "\<forall>f \<in> set mid. strip f \<noteq> strip c"
    and x: "strip x = strip c"
  shows "parse_author_and_publisher doc =
           Inr (filter is_name (map strip pre), last (m # mid))
       \<and> (mid = [] \<longrightarrow>
            parse_author_and_publisher doc = Inr (filter is_name (map strip pre), m))"
proof -
  have general: "parse_author_and_publisher doc =
      Inr (filter is_name (map strip pre), last (m # mid))"
    by (rule parse_marker_date [OF block sub date content pre m mid x])
  then show ?thesis
    by simp
qed

text \<open>A page whose publisher fragment carries blanks, and a page where the date follows
  the marker fragment.\<close>

theorem publisher_is_raw_fragment_witness:
  "parse_author_and_publisher spaced_page =
     Inr ([ascii ''Jane Doe'', ascii ''John Roe''], ascii '' Acme Press '')
   \<and> ascii '' Acme Press '' \<noteq> strip (ascii '' Acme Press '')
   \<and> parse_author_and_publisher marker_first_page =
       Inr ([ascii ''Jane Doe''], ascii '' '' @ AUTHOR_END_MARK @ ascii '' '')"
proof -
  have sub1: "itertext (text_block [ascii '' Jane Doe '', ascii '','', ascii ''John Roe'',
        AUTHOR_END_MARK, ascii '' Acme Press '', ascii '' 2020-01-01 ''])
      = [ascii '' Jane Doe '', ascii '','', ascii ''John Roe''] @ AUTHOR_END_MARK
          # [ascii '' Acme Press ''] @ ascii '' 2020-01-01 '' # []"
    by (simp add: itertext_text_block)
  have pre1: "\<forall>f \<in> set [ascii '' Jane Doe '', ascii '','', ascii ''John Roe'']. \<not> is_marker f"
    by (simp add: string_eval)
  have mid1: "\<forall>f \<in> set [ascii '' Acme Press '']. strip f \<noteq> strip (ascii ''2020-01-01'')"
    by (simp add: string_eval)
  have x1: "strip (ascii '' 2020-01-01 '') = strip (ascii ''2020-01-01'')"
    by (simp add: string_eval)
  have first: "parse_author_and_publisher spaced_page =
     Inr ([ascii ''Jane Doe'', ascii ''John Roe''], ascii '' Acme Press '')"
    using publisher_is_raw_fragment [OF spaced_page_parts(1) sub1 spaced_page_parts(2)
        meta_tag_content pre1 example_fragments(5) mid1 x1]
    by (simp add: string_eval)
  have raw: "ascii '' Acme Press '' \<noteq> strip (ascii '' Acme Press '')"
    by (simp add: string_eval)
  have sub2: "itertext (text_block [ascii ''Jane Doe'', ascii '' '' @ AUTHOR_END_MARK @ ascii '' '',
        ascii ''2020-01-01''])
      = [ascii ''Jane Doe''] @ (ascii '' '' @ AUTHOR_END_MARK @ ascii '' '')
          # [] @ ascii ''2020-01-01'' # []"
    by (simp add: itertext_text_block)
  have pre2: "\<forall>f \<in> set [ascii ''Jane Doe'']. \<not> is_marker f"
    by (simp add: string_eval)
  have mid2: "\<forall>f \<in> set []. strip f \<noteq> strip (ascii ''2020-01-01'')"
    by simp
  have second: "parse_author_and_publisher marker_first_page =
       Inr ([ascii ''Jane Doe''], ascii '' '' @ AUTHOR_END_MARK @ ascii '' '')"
    using publisher_is_raw_fragment [OF marker_first_page_parts(1) sub2 marker_first_page_parts(2)
        meta_tag_content pre2 example_fragments(6) mid2 refl]
    by (simp add: string_eval)
  from first raw second show ?thesis
    by simp
qed

section \<open>Facts about the item fetcher\<close>

lemma fetch_rating_zero: "fetch_rating doc = 0"
  by (simp add: fetch_rating_def float_of_list_def)

lemma first_content_located:
  "first_content doc sel = Inr v \<Longrightarrow>
   xpath doc sel \<noteq> [] \<and> v = attrib (hd (xpath doc sel)) (ascii ''content'')"
  by (cases "xpath doc sel") (simp_all add: first_content_absent first_content_present)

lemma parse_located:
  assumes "parse_author_and_publisher doc = Inr p"
  shows "xpath doc AUTHORS_AND_PUBLISHER_XPATH \<noteq> [] \<and> xpath doc PUBLISHED_DATE_XPATH \<noteq> []"
proof (intro conjI notI)
  assume "xpath doc AUTHORS_AND_PUBLISHER_XPATH = []"
  then have "parse_author_and_publisher doc = Inl IndexError"
    by (simp add: parse_author_and_publisher_def subscript_def)
  with assms show False by simp
next
  assume "xpath doc PUBLISHED_DATE_XPATH = []"
  then have "first_content doc PUBLISHED_DATE_XPATH = Inl IndexError"
    by (rule first_content_absent)
  then have "\<exists>e. parse_author_and_publisher doc = Inl e"
    by (simp add: parse_author_and_publisher_def Let_def split: sum.splits prod.splits)
  with assms show False by auto
qed

lemma parse_depends_on:
  assumes block: "xpath doc AUTHORS_AND_PUBLISHER_XPATH = xpath doc' AUTHORS_AND_PUBLISHER_XPATH"
    and date: "xpath doc PUBLISHED_DATE_XPATH = xpath doc' PUBLISHED_DATE_XPATH"
  shows "parse_author_and_publisher doc = parse_author_and_publisher doc'"
proof -
  have content: "first_content doc PUBLISHED_DATE_XPATH = first_content doc' PUBLISHED_DATE_XPATH"
    by (simp add: first_content_def date)
  show ?thesis
    unfolding parse_author_and_publisher_def block content by (rule refl)
qed

lemma fetch_book_body_emitted:
  assumes "fetch_book_body doc book_id book_url generic_cover = Inr r"
  shows "\<exists>tv cv dv iv pv.
      first_content doc TITLE_XPATH = Inr tv
    \<and> parse_author_and_publisher doc = Inr (authors r, publisher r)
    \<and> first_content doc COVER_XPATH = Inr cv
    \<and> first_content doc DESCRIPTION_XPATH = Inr dv
    \<and> first_content doc ISBN_XPATH = Inr iv
    \<and> first_content doc PUBLISHED_DATE_XPATH = Inr pv
    \<and> r = \<lparr>ident = book_id, title = tv, authors = authors r, url = book_url,
            source = \<lparr>source_id = provider_id, source_description = DESCRIPTION,
                      source_link = META_URL\<rparr>,
            cover = str_or cv generic_cover, description = dv,
            identifiers = [ascii ''isbn'' \<mapsto> iv], publisher = publisher r,
            publishedDate = pv, rating = 0\<rparr>"
  using assms
  by (auto simp: fetch_book_body_def get_description_def Let_def fetch_rating_zero
      split: sum.splits prod.splits)

lemma fetch_book_body_raises:
  "first_content doc sel = Inl e \<Longrightarrow>
   sel \<in> {TITLE_XPATH, COVER_XPATH, DESCRIPTION_XPATH, ISBN_XPATH, PUBLISHED_DATE_XPATH} \<Longrightarrow>
   \<exists>e'. fetch_book_body doc book_id book_url generic_cover = Inl e'"
  by (auto simp: fetch_book_body_def get_description_def Let_def
      split: sum.splits prod.splits)

lemma fetch_book_body_no_block:
  "parse_author_and_publisher doc = Inl e \<Longrightarrow>
   \<exists>e'. fetch_book_body doc book_id book_url generic_cover = Inl e'"
  by (auto simp: fetch_book_body_def split: sum.splits prod.splits)

lemma fetch_book_fetched:
  "net (BOOK_URL @ ascii ''?ItemId='' @ book_id) = Some doc \<Longrightarrow>
   fetch_book net book_id generic_cover w =
     ((case fetch_book_body doc book_id (BOOK_URL @ ascii ''?ItemId='' @ book_id) generic_cover of
         Inl e \<Rightarrow> None | Inr r \<Rightarrow> Some r),
      w\<lparr>requested := add_mset (BOOK_URL @ ascii ''?ItemId='' @ book_id) (requested w)\<rparr>)"
  by (simp add: fetch_book_def http_get_def Let_def split: sum.splits)

lemma fetch_book_failed:
  "net (BOOK_URL @ ascii ''?ItemId='' @ book_id) = None \<Longrightarrow>
   fetch_book net book_id generic_cover w =
     (None, w\<lparr>requested := add_mset (BOOK_URL @ ascii ''?ItemId='' @ book_id) (requested w)\<rparr>)"
  by (simp add: fetch_book_def http_get_def Let_def)

lemma fetch_book_rating_zero:
  "fst (fetch_book net book_id generic_cover w) = Some r \<Longrightarrow> rating r = 0"
  by (auto simp: fetch_book_def http_get_def Let_def split: option.splits sum.splits
      dest!: fetch_book_body_emitted) (metis MetaRecord.select_convs(11))

section \<open>The item fetcher on the example pages\<close>

lemma parse_book_page:
  "parse_author_and_publisher book_page = Inr ([ascii ''Jane Doe''], ascii ''Acme Press'')"
proof -
  have sub: "itertext (text_block [ascii ''Jane Doe'', AUTHOR_END_MARK, ascii ''Acme Press'',
        ascii ''2020-01-01''])
      = [ascii ''Jane Doe''] @ AUTHOR_END_MARK # [ascii ''Acme Press''] @ ascii ''2020-01-01'' # []"
    by (simp add: itertext_text_block)
  have pre: "\<forall>f \<in> set [ascii ''Jane Doe'']. \<not> is_marker f"
    by (simp add: example_fragments)
  have mid: "\<forall>f \<in> set [ascii ''Acme Press'']. strip f \<noteq> strip (ascii ''2020-01-01'')"
    by (simp add: example_strip example_distinct)
  have "parse_author_and_publisher book_page =
      Inr (filter is_name (map strip [ascii ''Jane Doe'']),
           last (AUTHOR_END_MARK # [ascii ''Acme Press'']))"
    by (rule parse_marker_date [OF book_page_parts(1) sub book_page_parts(2) meta_tag_content
          pre example_fragments(5) mid refl])
  then show ?thesis
    by (simp add: example_strip example_distinct)
qed

lemma no_cover_page_parts:
  "xpath no_cover_page COVER_XPATH = []"
  "xpath no_cover_page TITLE_XPATH = meta_tag (ascii ''A Title'') # []"
  "xpath no_cover_page AUTHORS_AND_PUBLISHER_XPATH = xpath book_page AUTHORS_AND_PUBLISHER_XPATH"
  "xpath no_cover_page PUBLISHED_DATE_XPATH = xpath book_page PUBLISHED_DATE_XPATH"
  "xpath no_cover_page DESCRIPTION_XPATH = meta_tag (ascii ''About'') # []"
  "xpath no_cover_page ISBN_XPATH = meta_tag (ascii ''9780000000000'') # []"
  by (simp_all add: no_cover_page_def book_page_def xpath_def)

lemma no_title_page_parts:
  "xpath no_title_page TITLE_XPATH = []"
  by (simp add: no_title_page_def book_page_def xpath_def)

lemma parse_no_cover_page:
  "parse_author_and_publisher no_cover_page = Inr ([ascii ''Jane Doe''], ascii ''Acme Press'')"
  using parse_depends_on [OF no_cover_page_parts(3) no_cover_page_parts(4)] parse_book_page
  by simp

lemma fetch_book_body_book_page:
  "fetch_book_body book_page (ascii ''1001'') (BOOK_URL @ ascii ''?ItemId='' @ ascii ''1001'')
     generic_cover = Inr (book_record generic_cover)"
  by (simp add: fetch_book_body_def get_description_def parse_book_page fetch_rating_zero
      first_content_present [OF book_page_parts(2)] first_content_present [OF book_page_parts(3)]
      first_content_present [OF book_page_parts(4)] first_content_present [OF book_page_parts(5)]
      first_content_present [OF book_page_parts(6)] meta_tag_content book_record_def str_or_def)
     (simp add: ascii_def)

lemma fetch_book_1001:
  "fst (fetch_book example_net (ascii ''1001'') generic_cover w) = Some (book_record generic_cover)"
  by (simp add: fetch_book_fetched [where net = example_net and book_id = "ascii ''1001''", OF example_net_item1] fetch_book_body_book_page)

lemma fetch_book_body_no_cover_page:
  "fetch_book_body no_cover_page book_id book_url generic_cover = Inl IndexError"
  by (simp add: fetch_book_body_def parse_no_cover_page
      first_content_present [OF no_cover_page_parts(2)]
      first_content_absent [OF no_cover_page_parts(1)])

lemma fetch_book_1002:
  "fst (fetch_book example_net (ascii ''1002'') generic_cover w) = None"
  by (simp add: fetch_book_fetched [where net = example_net and book_id = "ascii ''1002''", OF example_net_item2] fetch_book_body_no_cover_page)

lemma fetch_book_body_no_title_page:
  "fetch_book_body no_title_page book_id book_url generic_cover = Inl IndexError"
  by (simp add: fetch_book_body_def first_content_absent [OF no_title_page_parts])

lemma fetch_book_1003:
  "fst (fetch_book example_net (ascii ''1003'') generic_cover w) = None"
  by (simp add: fetch_book_fetched [where net = example_net and book_id = "ascii ''1003''", OF example_net_item3] fetch_book_body_no_title_page)

section \<open>A record is complete or absent\<close>

text \<open>
  C4. \<open>_fetch_book\<close> emits a record only if the title tag, the author/publisher block,
  the description tag, the isbn tag and the published-date tag were all located; the
  record then holds exactly the extracted values, its cover being the content of the
  cover tag or else the generic cover. Whenever the extraction raises, and so whenever
  one of these five is missing (the \<open>og:title\<close> tag for one), \<open>_fetch_book\<close> returns
  \<open>None\<close>: there is no partial record.
\<close>

theorem fetch_book_all_or_nothing:
  assumes page: "net (BOOK_URL @ ascii ''?ItemId='' @ book_id) = Some doc"
  shows "(\<forall>r. fst (fetch_book net book_id generic_cover w) = Some r \<longrightarrow>
            xpath doc TITLE_XPATH \<noteq> []
          \<and> xpath doc AUTHORS_AND_PUBLISHER_XPATH \<noteq> []
          \<and> xpath doc DESCRIPTION_XPATH \<noteq> []
          \<and> xpath doc ISBN_XPATH \<noteq> []
          \<and> xpath doc PUBLISHED_DATE_XPATH \<noteq> []
          \<and> ident r = book_id
          \<and> url r = BOOK_URL @ ascii ''?ItemId='' @ book_id
          \<and> title r = attrib (hd (xpath doc TITLE_XPATH)) (ascii ''content'')
          \<and> parse_author_and_publisher doc = Inr (authors r, publisher r)
          \<and> (\<exists>cv. first_content doc COVER_XPATH = Inr cv \<and> cover r = str_or cv generic_cover)
          \<and> description r = attrib (hd (xpath doc DESCRIPTION_XPATH)) (ascii ''content'')
          \<and> identifiers r =
              [ascii ''isbn'' \<mapsto> attrib (hd (xpath doc ISBN_XPATH)) (ascii ''content'')]
          \<and> publishedDate r = attrib (hd (xpath doc PUBLISHED_DATE_XPATH)) (ascii ''content''))
       \<and> ((\<exists>e. fetch_book_body doc book_id (BOOK_URL @ ascii ''?ItemId='' @ book_id)
                  generic_cover = Inl e) \<longrightarrow>
            fst (fetch_book net book_id generic_cover w) = None)
       \<and> (xpath doc TITLE_XPATH = [] \<or> xpath doc AUTHORS_AND_PUBLISHER_XPATH = []
            \<or> xpath doc DESCRIPTION_XPATH = [] \<or> xpath doc ISBN_XPATH = []
            \<or> xpath doc PUBLISHED_DATE_XPATH = [] \<longrightarrow>
            fst (fetch_book net book_id generic_cover w) = None)"
proof (intro conjI allI impI)
  let ?url = "BOOK_URL @ ascii ''?ItemId='' @ book_id"
  have result: "fst (fetch_book net book_id generic_cover w) =
      (case fetch_book_body doc book_id ?url generic_cover of Inl e \<Rightarrow> None | Inr r \<Rightarrow> Some r)"
    using page by (simp add: fetch_book_fetched)
  {
    fix r
    assume "fst (fetch_book net book_id generic_cover w) = Some r"
    then have body: "fetch_book_body doc book_id ?url generic_cover = Inr r"
      using result by (simp split: sum.splits)
    from fetch_book_body_emitted [OF body] obtain tv cv dv iv pv where
      tv: "first_content doc TITLE_XPATH = Inr tv"
      and parse: "parse_author_and_publisher doc = Inr (authors r, publisher r)"
      and cv: "first_content doc COVER_XPATH = Inr cv"
      and dv: "first_content doc DESCRIPTION_XPATH = Inr dv"
      and iv: "first_content doc ISBN_XPATH = Inr iv"
      and pv: "first_content doc PUBLISHED_DATE_XPATH = Inr pv"
      and r: "r = \<lparr>ident = book_id, title = tv, authors = authors r, url = ?url,
            source = \<lparr>source_id = provider_id, source_description = DESCRIPTION,
                      source_link = META_URL\<rparr>,
            cover = str_or cv generic_cover, description = dv,
            identifiers = [ascii ''isbn'' \<mapsto> iv], publisher = publisher r,
            publishedDate = pv, rating = 0\<rparr>"
      by blast
    have fields: "ident r = book_id" "url r = ?url" "title r = tv"
      "cover r = str_or cv generic_cover" "description r = dv"
      "identifiers r = [ascii ''isbn'' \<mapsto> iv]" "publishedDate r = pv"
      by (subst r, simp)+
    show "xpath doc TITLE_XPATH \<noteq> []"
      using first_content_located [OF tv] by simp
    show "xpath doc AUTHORS_AND_PUBLISHER_XPATH \<noteq> []"
      using parse_located [OF parse] by simp
    show "xpath doc DESCRIPTION_XPATH \<noteq> []"
      using first_content_located [OF dv] by simp
    show "xpath doc ISBN_XPATH \<noteq> []"
      using first_content_located [OF iv] by simp
    show "xpath doc PUBLISHED_DATE_XPATH \<noteq> []"
      using first_content_located [OF pv] by simp
    show "ident r = book_id"
      by (rule fields)
    show "url r = ?url"
      by (rule fields)
    show "title r = attrib (hd (xpath doc TITLE_XPATH)) (ascii ''content'')"
      using first_content_located [OF tv] fields(3) by simp
    show "parse_author_and_publisher doc = Inr (authors r, publisher r)"
      by (rule parse)
    show "\<exists>cv. first_content doc COVER_XPATH = Inr cv \<and> cover r = str_or cv generic_cover"
      using cv fields(4) by blast
    show "description r = attrib (hd (xpath doc DESCRIPTION_XPATH)) (ascii ''content'')"
      using first_content_located [OF dv] fields(5) by simp
    show "identifiers r =
        [ascii ''isbn'' \<mapsto> attrib (hd (xpath doc ISBN_XPATH)) (ascii ''content'')]"
      using first_content_located [OF iv] fields(6) by simp
    show "publishedDate r = attrib (hd (xpath doc PUBLISHED_DATE_XPATH)) (ascii ''content'')"
      using first_content_located [OF pv] fields(7) by simp
  }
  {
    assume "\<exists>e. fetch_book_body doc book_id ?url generic_cover = Inl e"
    then show "fst (fetch_book net book_id generic_cover w) = None"
      using result by auto
  }
  {
    assume missing: "xpath doc TITLE_XPATH = [] \<or> xpath doc AUTHORS_AND_PUBLISHER_XPATH = []
            \<or> xpath doc DESCRIPTION_XPATH = [] \<or> xpath doc ISBN_XPATH = []
            \<or> xpath doc PUBLISHED_DATE_XPATH = []"
    have "\<exists>e. fetch_book_body doc book_id ?url generic_cover = Inl e"
    proof (cases "fetch_book_body doc book_id ?url generic_cover")
      case (Inl e)
      then show ?thesis by blast
    next
      case (Inr r)
      from fetch_book_body_emitted [OF Inr] obtain tv dv iv pv where
        "first_content doc TITLE_XPATH = Inr tv"
        "parse_author_and_publisher doc = Inr (authors r, publisher r)"
        "first_content doc DESCRIPTION_XPATH = Inr dv"
        "first_content doc ISBN_XPATH = Inr iv"
        "first_content doc PUBLISHED_DATE_XPATH = Inr pv"
        by blast
      then have "xpath doc TITLE_XPATH \<noteq> []" "xpath doc AUTHORS_AND_PUBLISHER_XPATH \<noteq> []"
        "xpath doc DESCRIPTION_XPATH \<noteq> []" "xpath doc ISBN_XPATH \<noteq> []"
        "xpath doc PUBLISHED_DATE_XPATH \<noteq> []"
        using first_content_located parse_located by blast+
      with missing show ?thesis by blast
    qed
    then show "fst (fetch_book net book_id generic_cover w) = None"
      using result by auto
  }
qed

text \<open>The complete page gives its record; the page without the \<open>og:title\<close> tag gives
  none.\<close>

theorem fetch_book_all_or_nothing_witness:
  "example_net (BOOK_URL @ ascii ''?ItemId='' @ ascii ''1001'') = Some book_page
   \<and> fst (fetch_book example_net (ascii ''1001'') (ascii ''generic.jpg'') fresh_world) =
       Some (book_record (ascii ''generic.jpg''))
   \<and> title (book_record (ascii ''generic.jpg'')) = Some (ascii ''A Title'')
   \<and> parse_author_and_publisher book_page =
       Inr (authors (book_record (ascii ''generic.jpg'')),
            publisher (book_record (ascii ''generic.jpg'')))
   \<and> example_net (BOOK_URL @ ascii ''?ItemId='' @ ascii ''1003'') = Some no_title_page
   \<and> xpath no_title_page TITLE_XPATH = []
   \<and> fst (fetch_book example_net (ascii ''1003'') (ascii ''generic.jpg'') fresh_world) = None"
proof -
  note complete = fetch_book_all_or_nothing [where net = example_net and book_id = "ascii ''1001''"
      and generic_cover = "ascii ''generic.jpg''" and w = fresh_world, OF example_net_item1]
  note untitled = fetch_book_all_or_nothing [where net = example_net and book_id = "ascii ''1003''"
      and generic_cover = "ascii ''generic.jpg''" and w = fresh_world, OF example_net_item3]
  have emitted: "fst (fetch_book example_net (ascii ''1001'') (ascii ''generic.jpg'') fresh_world) =
       Some (book_record (ascii ''generic.jpg''))"
    by (rule fetch_book_1001)
  from complete emitted
  have "title (book_record (ascii ''generic.jpg'')) =
      attrib (hd (xpath book_page TITLE_XPATH)) (ascii ''content'')"
    and parse: "parse_author_and_publisher book_page =
       Inr (authors (book_record (ascii ''generic.jpg'')),
            publisher (book_record (ascii ''generic.jpg'')))"
    by blast+
  then have title: "title (book_record (ascii ''generic.jpg'')) = Some (ascii ''A Title'')"
    by (simp add: book_page_parts meta_tag_content)
  from untitled no_title_page_parts
  have dropped: "fst (fetch_book example_net (ascii ''1003'') (ascii ''generic.jpg'') fresh_world) = None"
    by blast
  from emitted title parse dropped example_net_item1 example_net_item3 no_title_page_parts
  show ?thesis
    by simp
qed

section \<open>The rating\<close>

text \<open>
  C1. The specification says that a detail page whose rating anchor has the text \<open>8.5\<close>
  gives a record with rating \<open>int(8.5/2 + 0.5) = 4\<close>, and that a page without a usable
  rating gives rating \<open>0\<close> without losing the item. The code applies \<open>float\<close> to the
  list of matching elements, which raises, so the rating of every emitted record is
  \<open>0\<close>: here the page has the anchor with the text \<open>8.5\<close> and the emitted record has
  rating \<open>0\<close>, not \<open>4\<close>.
\<close>

theorem rating_of_page_with_anchor:
  "xpath book_page RAITING10_XPATH = [anchor (ascii ''8.5'')]
   \<and> text_of (anchor (ascii ''8.5'')) = Some (ascii ''8.5'')
   \<and> map_option rating
        (fst (fetch_book example_net (ascii ''1001'') (ascii ''generic.jpg'') fresh_world))
      = Some 0"
  by (simp add: fetch_book_1001 book_page_parts anchor_def book_record_def)

section \<open>The cover\<close>

text \<open>
  C2. The specification says that a detail page without the \<open>og:image\<close> tag, all
  required fields being present, still gives a record, whose cover is the generic cover.
  In the code the subscript \<open>[0]\<close> on the empty match list raises before
  \<open>or generic_cover\<close> is reached, and the outer handler drops the item: here the page
  has every tag but the cover tag, and \<open>_fetch_book\<close> returns \<open>None\<close>.
\<close>

theorem missing_cover_drops_item:
  "xpath no_cover_page COVER_XPATH = []
   \<and> xpath no_cover_page TITLE_XPATH \<noteq> []
   \<and> xpath no_cover_page AUTHORS_AND_PUBLISHER_XPATH \<noteq> []
   \<and> xpath no_cover_page DESCRIPTION_XPATH \<noteq> []
   \<and> xpath no_cover_page ISBN_XPATH \<noteq> []
   \<and> xpath no_cover_page PUBLISHED_DATE_XPATH \<noteq> []
   \<and> example_net (BOOK_URL @ ascii ''?ItemId='' @ ascii ''1002'') = Some no_cover_page
   \<and> fst (fetch_book example_net (ascii ''1002'') (ascii ''generic.jpg'') fresh_world) = None"
  by (simp add: fetch_book_1002 no_cover_page_parts book_page_parts example_net_item2)

section \<open>The orchestrator\<close>

lemma fetch_book_result_any_world:
  "fst (fetch_book net book_id generic_cover w) = fst (fetch_book net book_id generic_cover w')"
  by (simp add: fetch_book_def http_get_def Let_def split: option.splits sum.splits)

lemma submit_all_results:
  "fst (submit_all net generic_cover ids w) =
     map (\<lambda>book_id. fst (fetch_book net book_id generic_cover w0)) ids"
proof (induction ids arbitrary: w)
  case Nil
  show ?case by simp
next
  case (Cons book_id ids)
  have "fst (submit_all net generic_cover (book_id # ids) w) =
      fst (fetch_book net book_id generic_cover w)
        # fst (submit_all net generic_cover ids (snd (fetch_book net book_id generic_cover w)))"
    by (simp add: case_prod_unfold Let_def)
  also have "\<dots> = fst (fetch_book net book_id generic_cover w0)
        # map (\<lambda>book_id. fst (fetch_book net book_id generic_cover w0)) ids"
    using Cons.IH fetch_book_result_any_world [of net book_id generic_cover w w0] by simp
  finally show ?case by simp
qed

lemma search_found:
  assumes "parse_query get_title_tokens query = Inr q"
    and "fst (search_book_id net q w) = Some ids"
    and "ids \<noteq> []"
  shows "search True get_title_tokens net as_completed query generic_cover locale_hint w =
      Inr (Some (map the (filter (\<lambda>r. r \<noteq> None)
                   (as_completed (fst (submit_all net generic_cover ids
                                        (snd (search_book_id net q w))))))),
           snd (submit_all net generic_cover ids (snd (search_book_id net q w))))"
  using assms
  by (simp add: search_def case_prod_unfold Let_def concat_map_if)

lemma successes_count:
  "length (filter (\<lambda>r. r \<noteq> None) (map f xs)) =
     length xs - length (filter (\<lambda>x. f x = None) xs)"
proof -
  have "length (filter (\<lambda>x. f x \<noteq> None) xs) + length (filter (\<lambda>x. \<not> f x \<noteq> None) xs) = length xs"
    by (rule sum_length_filter_compl)
  then show ?thesis
    by (simp add: filter_map comp_def)
qed

section \<open>What the orchestrating call returns\<close>

text \<open>
  C8. For a non-empty list of item ids obtained from the search page, \<open>search\<close> returns
  the records of exactly those ids whose fetch and parse succeeded, in some order: as a
  multiset, the result is the list of the successful tasks' records, whatever order
  \<open>as_completed\<close> yields the tasks in. Its size is at most the number of ids, and equals
  that number minus the number of ids whose task returned \<open>None\<close>.
\<close>

theorem search_collects_successes:
  assumes query: "parse_query get_title_tokens query = Inr q"
    and ids: "fst (search_book_id net q w) = Some ids"
    and some: "ids \<noteq> []"
    and order: "\<forall>rs. mset (as_completed rs) = mset rs"
  shows "\<exists>val w'.
      search True get_title_tokens net as_completed query generic_cover locale_hint w =
        Inr (Some val, w')
    \<and> mset val = mset (map the (filter (\<lambda>r. r \<noteq> None)
                     (map (\<lambda>book_id. fst (fetch_book net book_id generic_cover w)) ids)))
    \<and> length val \<le> length ids
    \<and> length val = length ids
         - length (filter (\<lambda>book_id. fst (fetch_book net book_id generic_cover w) = None) ids)"
proof -
  let ?task = "\<lambda>book_id. fst (fetch_book net book_id generic_cover w)"
  let ?futures = "fst (submit_all net generic_cover ids (snd (search_book_id net q w)))"
  let ?val = "map the (filter (\<lambda>r. r \<noteq> None) (as_completed ?futures))"
  have futures: "?futures = map ?task ids"
    by (rule submit_all_results)
  have result: "search True get_title_tokens net as_completed query generic_cover locale_hint w =
      Inr (Some ?val, snd (submit_all net generic_cover ids (snd (search_book_id net q w))))"
    by (rule search_found [OF query ids some])
  have "mset ?val = image_mset the (filter_mset (\<lambda>r. r \<noteq> None) (mset (as_completed ?futures)))"
    by simp
  also have "\<dots> = image_mset the (filter_mset (\<lambda>r. r \<noteq> None) (mset (map ?task ids)))"
    using order futures by simp
  also have "\<dots> = mset (map the (filter (\<lambda>r. r \<noteq> None) (map ?task ids)))"
    by simp
  finally have same: "mset ?val = mset (map the (filter (\<lambda>r. r \<noteq> None) (map ?task ids)))" .
  then have "length ?val = length (map the (filter (\<lambda>r. r \<noteq> None) (map ?task ids)))"
    by (rule mset_eq_length)
  then have "length ?val = length (filter (\<lambda>r. r \<noteq> None) (map ?task ids))"
    by (simp only: length_map)
  then have count: "length ?val = length ids - length (filter (\<lambda>book_id. ?task book_id = None) ids)"
    by (simp only: successes_count)
  then have bound: "length ?val \<le> length ids"
    by simp
  from result same bound count show ?thesis
    by blast
qed

text \<open>The query \<open>book\<close>: three ids, of which the first gives a record, the second has
  no cover tag and the third no title tag; the tasks complete in reverse order.\<close>

theorem search_collects_successes_witness:
  "parse_query split_tokens (ascii ''book'') = Inr (ascii ''book'')
   \<and> fst (search_book_id example_net (ascii ''book'') fresh_world) =
       Some (map ascii [''1001'', ''1002'', ''1003''])
   \<and> (\<forall>rs::MetaRecord option list. mset (rev rs) = mset rs)
   \<and> (\<exists>val w'. search True split_tokens example_net rev (ascii ''book'') (ascii ''generic.jpg'')
          (ascii ''en'') fresh_world = Inr (Some val, w')
        \<and> mset val = {#book_record (ascii ''generic.jpg'')#}
        \<and> length val = 1)"
proof -
  have ids: "fst (search_book_id example_net (ascii ''book'') fresh_world) =
       Some (map ascii [''1001'', ''1002'', ''1003''])"
    by (simp only: search_book_id_fetched [where net = example_net, OF example_net_book]
        few_results_ids fst_conv)
  have some: "map ascii [''1001'', ''1002'', ''1003''] \<noteq> []"
    by simp
  have order: "\<forall>rs::MetaRecord option list. mset (rev rs) = mset rs"
    by simp
  from search_collects_successes [where as_completed = rev and generic_cover = "ascii ''generic.jpg''"
      and locale_hint = "ascii ''en''", OF parse_query_word(2) ids some order]
  have "\<exists>val w'. search True split_tokens example_net rev (ascii ''book'') (ascii ''generic.jpg'')
          (ascii ''en'') fresh_world = Inr (Some val, w')
        \<and> mset val = {#book_record (ascii ''generic.jpg'')#}
        \<and> length val = 1"
    by (simp add: fetch_book_1001 fetch_book_1002 fetch_book_1003)
  with ids order parse_query_word(2) show ?thesis
    by blast
qed

section \<open>The normalised query\<close>

lemma encode_code_point_scalar:
  "\<not> surrogate c \<Longrightarrow> \<exists>bs. encode_code_point c = Inr bs"
  by (simp add: encode_code_point_def)

lemma encode_utf8_scalar:
  "\<forall>c \<in> set t. \<not> surrogate c \<Longrightarrow> \<exists>bs. encode_utf8 t = Inr bs"
proof (induction t)
  case Nil
  show ?case by simp
next
  case (Cons c cs)
  then obtain b bs where "encode_code_point c = Inr b" "encode_utf8 cs = Inr bs"
    using encode_code_point_scalar [of c] by auto
  then show ?case by simp
qed

lemma quote_tokens_scalar:
  "\<forall>t \<in> set ts. \<forall>c \<in> set t. \<not> surrogate c \<Longrightarrow>
   \<exists>bs. map encode_utf8 ts = map Inr bs \<and> quote_tokens ts = Inr (map quote bs)"
proof (induction ts)
  case Nil
  show ?case by simp
next
  case (Cons t ts)
  obtain b where b: "encode_utf8 t = Inr b"
    using encode_utf8_scalar [of t] Cons.prems by auto
  obtain bs where bs: "map encode_utf8 ts = map Inr bs" "quote_tokens ts = Inr (map quote bs)"
    using Cons by auto
  have "map encode_utf8 (t # ts) = map Inr (b # bs) \<and> quote_tokens (t # ts) = Inr (map quote (b # bs))"
    using b bs by simp
  then show ?case by blast
qed

lemma encode_utf8_surrogate:
  "\<exists>c \<in> set t. surrogate c \<Longrightarrow> encode_utf8 t = Inl UnicodeEncodeError"
proof (induction t)
  case Nil
  then show ?case by simp
next
  case (Cons c cs)
  show ?case
  proof (cases "surrogate c")
    case True
    then have "encode_code_point c = Inl UnicodeEncodeError"
      by (auto simp add: encode_code_point_def surrogate_def)
    then show ?thesis by simp
  next
    case False
    then obtain b where "encode_code_point c = Inr b"
      using encode_code_point_scalar by blast
    moreover have "encode_utf8 cs = Inl UnicodeEncodeError"
      using Cons False by simp
    ultimately show ?thesis by simp
  qed
qed

lemma quote_tokens_surrogate:
  "\<exists>t \<in> set ts. \<exists>c \<in> set t. surrogate c \<Longrightarrow> quote_tokens ts = Inl UnicodeEncodeError"
proof (induction ts)
  case Nil
  then show ?case by simp
next
  case (Cons t ts)
  show ?case
  proof (cases "\<exists>c \<in> set t. surrogate c")
    case True
    then show ?thesis by (simp add: encode_utf8_surrogate)
  next
    case False
    then obtain b where "encode_utf8 t = Inr b"
      using encode_utf8_scalar [of t] by auto
    moreover have "quote_tokens ts = Inl UnicodeEncodeError"
      using Cons False by simp
    ultimately show ?thesis by simp
  qed
qed

text \<open>
  C6, as the code has it. When the tokens (\<open>get_title_tokens\<close> with
  \<open>strip_joiners=False\<close>) are at least one and none of them holds a surrogate code point
  (U+D800 to U+DFFF), \<open>_parse_query\<close> returns the tokens, each encoded in UTF-8 and
  percent-encoded by \<open>quote\<close>, joined with \<open>+\<close>. When a token holds a surrogate, the
  encoding raises \<open>UnicodeEncodeError\<close>. When there is no token, the raw query is
  returned unchanged.
\<close>

theorem parse_query_encodes_tokens:
  "(get_title_tokens query False \<noteq> []
      \<and> (\<forall>t \<in> set (get_title_tokens query False). \<forall>c \<in> set t. \<not> surrogate c) \<longrightarrow>
      (\<exists>bs. map encode_utf8 (get_title_tokens query False) = map Inr bs
           \<and> parse_query get_title_tokens query = Inr (join (ascii ''+'') (map quote bs))))
   \<and> ((\<exists>t \<in> set (get_title_tokens query False). \<exists>c \<in> set t. surrogate c) \<longrightarrow>
      parse_query get_title_tokens query = Inl UnicodeEncodeError)
   \<and> (get_title_tokens query False = [] \<longrightarrow> parse_query get_title_tokens query = Inr query)"
proof (intro conjI impI)
  assume a: "get_title_tokens query False \<noteq> []
      \<and> (\<forall>t \<in> set (get_title_tokens query False). \<forall>c \<in> set t. \<not> surrogate c)"
  then obtain bs where bs: "map encode_utf8 (get_title_tokens query False) = map Inr bs"
      "quote_tokens (get_title_tokens query False) = Inr (map quote bs)"
    using quote_tokens_scalar [of "get_title_tokens query False"] by blast
  have "parse_query get_title_tokens query = Inr (join (ascii ''+'') (map quote bs))"
    using a bs(2) by (simp add: parse_query_def)
  with bs(1) show "\<exists>bs. map encode_utf8 (get_title_tokens query False) = map Inr bs
           \<and> parse_query get_title_tokens query = Inr (join (ascii ''+'') (map quote bs))"
    by blast
next
  assume a: "\<exists>t \<in> set (get_title_tokens query False). \<exists>c \<in> set t. surrogate c"
  then have "get_title_tokens query False \<noteq> []"
    by auto
  then show "parse_query get_title_tokens query = Inl UnicodeEncodeError"
    using quote_tokens_surrogate [OF a] by (simp add: parse_query_def)
next
  assume "get_title_tokens query False = []"
  then show "parse_query get_title_tokens query = Inr query"
    by (simp add: parse_query_def)
qed

text \<open>The query \<open>U+C9C0 b/c~\<close> gives \<open>%EC%A7%80+b/c~\<close>; a query of blanks has no token
  and comes back as it is.\<close>

theorem parse_query_encodes_tokens_witness:
  "split_tokens ([51648] @ ascii '' b/c~'') False = [[51648], ascii ''b/c~'']
   \<and> map encode_utf8 [[51648], ascii ''b/c~''] = map Inr [[236, 167, 128], ascii ''b/c~'']
   \<and> parse_query split_tokens ([51648] @ ascii '' b/c~'') = Inr (ascii ''%EC%A7%80+b/c~'')
   \<and> split_tokens (ascii ''  '') False = []
   \<and> parse_query split_tokens (ascii ''  '') = Inr (ascii ''  '')"
proof -
  have tokens: "split_tokens ([51648] @ ascii '' b/c~'') False = [[51648], ascii ''b/c~'']"
    by (simp add: split_tokens_def ascii_def py_isspace_def)
  have scalar: "\<forall>t \<in> set [[51648], ascii ''b/c~'']. \<forall>c \<in> set t. \<not> surrogate c"
    by (simp add: ascii_def surrogate_def)
  have bytes: "map encode_utf8 [[51648], ascii ''b/c~''] = map Inr [[236, 167, 128], ascii ''b/c~'']"
    by (simp add: ascii_def encode_code_point_def surrogate_def)
  have blank: "split_tokens (ascii ''  '') False = []"
    by (simp add: split_tokens_def ascii_def py_isspace_def)
  have prem: "split_tokens ([51648] @ ascii '' b/c~'') False \<noteq> []
      \<and> (\<forall>t \<in> set (split_tokens ([51648] @ ascii '' b/c~'') False). \<forall>c \<in> set t. \<not> surrogate c)"
    unfolding tokens using scalar by simp
  from parse_query_encodes_tokens [of split_tokens "[51648] @ ascii '' b/c~''"]
  have "\<exists>bs. map encode_utf8 (split_tokens ([51648] @ ascii '' b/c~'') False) = map Inr bs
      \<and> parse_query split_tokens ([51648] @ ascii '' b/c~'') =
          Inr (join (ascii ''+'') (map quote bs))"
    using prem by blast
  then obtain bs where b1: "map encode_utf8 (split_tokens ([51648] @ ascii '' b/c~'') False) = map Inr bs"
    and b2: "parse_query split_tokens ([51648] @ ascii '' b/c~'') =
          Inr (join (ascii ''+'') (map quote bs))"
    by blast
  from b1 have "map Inr [[236, 167, 128], ascii ''b/c~''] = (map Inr bs :: (error + pybytes) list)"
    unfolding tokens bytes .
  then have "bs = [[236, 167, 128], ascii ''b/c~'']"
    by (simp only: inj_map_eq_map [OF inj_Inr])
  with b2
  have "parse_query split_tokens ([51648] @ ascii '' b/c~'') =
      Inr (join (ascii ''+'') (map quote [[236, 167, 128], ascii ''b/c~'']))"
    by simp
  then have encoded: "parse_query split_tokens ([51648] @ ascii '' b/c~'') = Inr (ascii ''%EC%A7%80+b/c~'')"
    by (simp add: ascii_def quote_def quote_byte_def always_safe_def hex_digit_def)
  from parse_query_encodes_tokens [of split_tokens "ascii ''  ''"] blank
  have raw: "parse_query split_tokens (ascii ''  '') = Inr (ascii ''  '')"
    by simp
  from tokens bytes encoded blank raw show ?thesis
    by simp
qed

text \<open>
  The statement for every query with at least one token, without the condition on
  surrogates, fails on a query that is a lone surrogate: it is its own token, and \<open>_parse_query\<close> raises
  instead of returning a string.
\<close>

theorem parse_query_surrogate_counterexample:
  "split_tokens [55296] False = [[55296]]
   \<and> split_tokens [55296] False \<noteq> []
   \<and> parse_query split_tokens [55296] = Inl UnicodeEncodeError"
  by (simp add: parse_query_def split_tokens_def py_isspace_def encode_code_point_def
      surrogate_def)

end
